theory Spec2Isabelle
  imports Complex_Main "HOL-Library.Word" "HOL-Library.Multiset"
begin

unbundle bit_operations_syntax

section \<open>The NativeLink cache client: key versioning, upload, key resolution, save and restore\<close>

text \<open>
  The development follows \<^verbatim>\<open>src/cas/grpcClient.ts\<close> (the gRPC client: \<^verbatim>\<open>getCacheVersion\<close>,
  \<^verbatim>\<open>FileAsyncIterable\<close>, \<^verbatim>\<open>saveCache\<close>, \<^verbatim>\<open>getCacheEntry\<close>, \<^verbatim>\<open>downloadCache\<close>) and the cache
  service built on it (\<^verbatim>\<open>checkPaths\<close>, \<^verbatim>\<open>checkKey\<close>, \<^verbatim>\<open>CasCacheService.restoreCache\<close>,
  \<^verbatim>\<open>CasCacheService.saveCache\<close>).

  JavaScript strings are modelled as \<^typ>\<open>string\<close>; one \<^typ>\<open>char\<close> stands for one UTF-16 code
  unit, which is what \<^verbatim>\<open>key.length\<close> counts and what the regular expression of \<^verbatim>\<open>checkKey\<close>
  reads. JavaScript numbers that hold byte counts are modelled as \<^typ>\<open>int\<close> (they stay far below
  \<open>2 ^ 53\<close>, where the arithmetic of the source is exact). A thrown value is a \<open>js_error\<close>; an
  operation that can throw returns \<open>js_error + 'a\<close>, with \<open>Inl\<close> for the thrown value.
\<close>

subsection \<open>Thrown values\<close>

text \<open>
  The status codes of the Connect library, in the order of its \<^verbatim>\<open>Code\<close> enumeration;
  \<^verbatim>\<open>Code[err.code]\<close> is the name of the member.
\<close>

datatype code =
    Canceled | Unknown | InvalidArgument | DeadlineExceeded | NotFound | AlreadyExists
  | PermissionDenied | ResourceExhausted | FailedPrecondition | Aborted | OutOfRange
  | Unimplemented | Internal | Unavailable | DataLoss | Unauthenticated

fun code_name :: "code \<Rightarrow> string" where
  "code_name Canceled = ''Canceled''"
| "code_name Unknown = ''Unknown''"
| "code_name InvalidArgument = ''InvalidArgument''"
| "code_name DeadlineExceeded = ''DeadlineExceeded''"
| "code_name NotFound = ''NotFound''"
| "code_name AlreadyExists = ''AlreadyExists''"
| "code_name PermissionDenied = ''PermissionDenied''"
| "code_name ResourceExhausted = ''ResourceExhausted''"
| "code_name FailedPrecondition = ''FailedPrecondition''"
| "code_name Aborted = ''Aborted''"
| "code_name OutOfRange = ''OutOfRange''"
| "code_name Unimplemented = ''Unimplemented''"
| "code_name Internal = ''Internal''"
| "code_name Unavailable = ''Unavailable''"
| "code_name DataLoss = ''DataLoss''"
| "code_name Unauthenticated = ''Unauthenticated''"

text \<open>
  A thrown value is either a \<^verbatim>\<open>ConnectError\<close> (with its \<^verbatim>\<open>code\<close>, \<^verbatim>\<open>rawMessage\<close> and
  \<^verbatim>\<open>message\<close>) or another \<^verbatim>\<open>Error\<close> object (with its \<^verbatim>\<open>name\<close> and \<^verbatim>\<open>message\<close>).
  \<^verbatim>\<open>new Error(m)\<close> has the name \<^verbatim>\<open>Error\<close>; the constructor of \<^verbatim>\<open>ValidationError\<close> sets the
  name \<^verbatim>\<open>ValidationError\<close>.
\<close>

datatype js_error =
    ConnectError code string string
  | Error string string

fun error_name :: "js_error \<Rightarrow> string" where
  "error_name (ConnectError c raw m) = ''ConnectError''"
| "error_name (Error n m) = n"

fun error_message :: "js_error \<Rightarrow> string" where
  "error_message (ConnectError c raw m) = m"
| "error_message (Error n m) = m"

definition new_Error :: "string \<Rightarrow> js_error" where
  "new_Error m = Error ''Error'' m"

definition ValidationError :: "string \<Rightarrow> js_error" where
  "ValidationError m = Error ''ValidationError'' m"

definition ValidationError_name :: string where
  "ValidationError_name = ''ValidationError''"

definition ReserveCacheError_name :: string where
  "ReserveCacheError_name = ''ReserveCacheError''"

subsection \<open>The process environment\<close>

record process =
  platform :: string
  NATIVELINK_REMOTE_CACHE_URL :: "string option"
  NATIVELINK_API_KEY :: "string option"
  VERSION_SALT :: "string option"

text \<open>JavaScript truthiness of an optional string: \<^verbatim>\<open>undefined\<close> and \<^verbatim>\<open>""\<close> are falsy.\<close>

fun truthy :: "string option \<Rightarrow> bool" where
  "truthy None = False"
| "truthy (Some s) = (s \<noteq> [])"

definition remoteCacheUrl :: "process \<Rightarrow> string option" where
  "remoteCacheUrl proc = NATIVELINK_REMOTE_CACHE_URL proc"

definition apiKey :: "process \<Rightarrow> string option" where
  "apiKey proc = NATIVELINK_API_KEY proc"

text \<open>\<^verbatim>\<open>const versionSalt = process.env["VERSION_SALT"] || "1.0"\<close>\<close>

definition versionSalt :: "process \<Rightarrow> string" where
  "versionSalt proc =
     (case VERSION_SALT proc of
        None \<Rightarrow> ''1.0''
      | Some s \<Rightarrow> if s \<noteq> [] then s else ''1.0'')"

definition MAX_GRPC_REQUEST_SIZE :: int where
  "MAX_GRPC_REQUEST_SIZE = 4 * 1024 * 1024 - 1024"

definition MESSAGE_SIZE :: int where
  "MESSAGE_SIZE = 64 * 1024"

subsection \<open>Key versioning: \<^verbatim>\<open>getCacheVersion\<close>\<close>

text \<open>\<^verbatim>\<open>Array.prototype.push\<close> and \<^verbatim>\<open>Array.prototype.join\<close> on an array of strings.\<close>

definition push :: "'a list \<Rightarrow> 'a \<Rightarrow> 'a list" where
  "push xs x = xs @ [x]"

fun join :: "string \<Rightarrow> string list \<Rightarrow> string" where
  "join sep [] = []"
| "join sep [x] = x"
| "join sep (x # y # ys) = x @ sep @ join sep (y # ys)"

text \<open>
  The component list that \<^verbatim>\<open>getCacheVersion\<close> builds, one \<^verbatim>\<open>push\<close> after the other. The
  optional arguments \<^verbatim>\<open>compressionMethod\<close> and \<^verbatim>\<open>key\<close> are tested for truthiness.
\<close>

definition cacheVersionComponents ::
  "process \<Rightarrow> string list \<Rightarrow> string option \<Rightarrow> bool \<Rightarrow> string option \<Rightarrow> string list" where
  "cacheVersionComponents proc paths compressionMethod enableCrossOsArchive key =
     (let components = paths;
          components = (case compressionMethod of
                          Some c \<Rightarrow> if c \<noteq> [] then push components c else components
                        | None \<Rightarrow> components);
          components = (if platform proc = ''win32'' \<and> \<not> enableCrossOsArchive
                        then push components ''windows-only'' else components);
          components = (case key of
                          Some k \<Rightarrow> if k \<noteq> [] then push components k else components
                        | None \<Rightarrow> components)
      in push components (versionSalt proc))"

text \<open>
  \<^verbatim>\<open>createHash("sha256").update(s).digest("hex")\<close> belongs to the runtime library; it is the
  parameter \<open>sha256_hex\<close>, so that what is proved of the fingerprint holds for any digest.
\<close>

definition getCacheVersion ::
  "(string \<Rightarrow> string) \<Rightarrow> process \<Rightarrow> string list \<Rightarrow> string option \<Rightarrow> bool \<Rightarrow> string option \<Rightarrow> string" where
  "getCacheVersion sha256_hex proc paths compressionMethod enableCrossOsArchive key =
     sha256_hex (join ''|''
       (cacheVersionComponents proc paths compressionMethod enableCrossOsArchive key))"

subsection \<open>SHA-256\<close>

text \<open>
  The digest that \<^verbatim>\<open>createHash("sha256").update(s).digest("hex")\<close> computes (FIPS 180-4), for
  evaluating \<^verbatim>\<open>getCacheVersion\<close> on concrete inputs. \<^verbatim>\<open>update\<close> hashes the UTF-8 encoding of
  the string.
\<close>

definition rotr :: "nat \<Rightarrow> 32 word \<Rightarrow> 32 word" where
  "rotr n x = (drop_bit n x) OR (push_bit (32 - n) x)"

definition Ch :: "32 word \<Rightarrow> 32 word \<Rightarrow> 32 word \<Rightarrow> 32 word" where
  "Ch x y z = (x AND y) XOR (NOT x AND z)"

definition Maj :: "32 word \<Rightarrow> 32 word \<Rightarrow> 32 word \<Rightarrow> 32 word" where
  "Maj x y z = (x AND y) XOR (x AND z) XOR (y AND z)"

definition Sigma0 :: "32 word \<Rightarrow> 32 word" where
  "Sigma0 x = rotr 2 x XOR rotr 13 x XOR rotr 22 x"

definition Sigma1 :: "32 word \<Rightarrow> 32 word" where
  "Sigma1 x = rotr 6 x XOR rotr 11 x XOR rotr 25 x"

definition sigma0 :: "32 word \<Rightarrow> 32 word" where
  "sigma0 x = rotr 7 x XOR rotr 18 x XOR drop_bit 3 x"

definition sigma1 :: "32 word \<Rightarrow> 32 word" where
  "sigma1 x = rotr 17 x XOR rotr 19 x XOR drop_bit 10 x"

text \<open>
  The round constants (the first 32 bits of the fractional parts of the cube roots of the first
  64 primes) and the initial hash value (likewise for the square roots of the first 8 primes).
\<close>

definition K256 :: "32 word list" where
  "K256 =
    [1116352408, 1899447441, 3049323471, 3921009573, 961987163, 1508970993, 2453635748, 2870763221,
     3624381080, 310598401, 607225278, 1426881987, 1925078388, 2162078206, 2614888103, 3248222580,
     3835390401, 4022224774, 264347078, 604807628, 770255983, 1249150122, 1555081692, 1996064986,
     2554220882, 2821834349, 2952996808, 3210313671, 3336571891, 3584528711, 113926993, 338241895,
     666307205, 773529912, 1294757372, 1396182291, 1695183700, 1986661051, 2177026350, 2456956037,
     2730485921, 2820302411, 3259730800, 3345764771, 3516065817, 3600352804, 4094571909, 275423344,
     430227734, 506948616, 659060556, 883997877, 958139571, 1322822218, 1537002063, 1747873779,
     1955562222, 2024104815, 2227730452, 2361852424, 2428436474, 2756734187, 3204031479, 3329325298]"

definition H256 :: "32 word list" where
  "H256 =
    [1779033703, 3144134277, 1013904242, 2773480762, 1359893119, 2600822924, 528734635, 1541459225]"

text \<open>
  The message schedule beyond the first sixteen words; the argument holds the last sixteen
  words, newest first.
\<close>

fun schedule :: "nat \<Rightarrow> 32 word list \<Rightarrow> 32 word list" where
  "schedule 0 w = []"
| "schedule (Suc n) w =
     (let x = sigma1 (w ! 1) + w ! 6 + sigma0 (w ! 14) + w ! 15
      in x # schedule n (x # butlast w))"

fun round_step :: "32 word list \<Rightarrow> 32 word \<times> 32 word \<Rightarrow> 32 word list" where
  "round_step [a, b, c, d, e, f, g, h] (k, w) =
     (let t1 = h + Sigma1 e + Ch e f g + k + w;
          t2 = Sigma0 a + Maj a b c
      in [t1 + t2, a, b, c, d + t1, e, f, g])"
| "round_step s kw = s"

definition compress :: "32 word list \<Rightarrow> 32 word list \<Rightarrow> 32 word list" where
  "compress h block =
     (let w = block @ schedule 48 (rev block)
      in map2 (+) h (foldl round_step h (zip K256 w)))"

fun be32 :: "8 word list \<Rightarrow> 32 word list" where
  "be32 (a # b # c # d # rest) =
     (push_bit 24 (ucast a) OR push_bit 16 (ucast b) OR push_bit 8 (ucast c) OR ucast d)
       # be32 rest"
| "be32 xs = []"

fun blocks :: "nat \<Rightarrow> 32 word list \<Rightarrow> 32 word list list" where
  "blocks 0 ws = []"
| "blocks (Suc n) ws = take 16 ws # blocks n (drop 16 ws)"

definition pad :: "8 word list \<Rightarrow> 8 word list" where
  "pad m =
     (let l = length m;
          z = (119 - l mod 64) mod 64
      in m @ [0x80] @ replicate z 0
           @ map (\<lambda>i. ucast (drop_bit (8 * i) (word_of_nat (8 * l) :: 64 word))) (rev [0..<8]))"

definition sha256 :: "8 word list \<Rightarrow> 32 word list" where
  "sha256 m = (let p = pad m in foldl compress H256 (blocks (length p div 64) (be32 p)))"

definition hexdigit :: "nat \<Rightarrow> char" where
  "hexdigit n = (if n < 10 then char_of (48 + n) else char_of (87 + n))"

definition hex32 :: "32 word \<Rightarrow> string" where
  "hex32 w = map (\<lambda>i. hexdigit (unat (drop_bit (4 * i) w AND 0xF))) (rev [0..<8])"

definition utf8 :: "char \<Rightarrow> 8 word list" where
  "utf8 c =
     (let n = (of_char c :: nat)
      in if n < 128 then [word_of_nat n]
         else [word_of_nat (192 + n div 64), word_of_nat (128 + n mod 64)])"

definition createHash_sha256_hex :: "string \<Rightarrow> string" where
  "createHash_sha256_hex s = concat (map hex32 (sha256 (concat (map utf8 s))))"

text \<open>
  The component list as the specification words it: an optional component is listed whenever
  it is present.
\<close>

definition specComponents ::
  "string list \<Rightarrow> string option \<Rightarrow> bool \<Rightarrow> bool \<Rightarrow> string option \<Rightarrow> string \<Rightarrow> string list" where
  "specComponents paths compressionTag crossPlatform windowsLike symbolicKey salt =
     paths @ (case compressionTag of Some c \<Rightarrow> [c] | None \<Rightarrow> [])
           @ (if windowsLike \<and> \<not> crossPlatform then [''windows-only''] else [])
           @ (case symbolicKey of Some k \<Rightarrow> [k] | None \<Rightarrow> [])
           @ [salt]"

text \<open>The same list with empty optional components left out.\<close>

definition nonEmptyComponent :: "string option \<Rightarrow> string list" where
  "nonEmptyComponent c = (case c of Some s \<Rightarrow> if s = [] then [] else [s] | None \<Rightarrow> [])"

definition orderedComponents ::
  "string list \<Rightarrow> string option \<Rightarrow> bool \<Rightarrow> bool \<Rightarrow> string option \<Rightarrow> string \<Rightarrow> string list" where
  "orderedComponents paths compressionTag crossPlatform windowsLike symbolicKey salt =
     paths @ nonEmptyComponent compressionTag
           @ (if windowsLike \<and> \<not> crossPlatform then [''windows-only''] else [])
           @ nonEmptyComponent symbolicKey
           @ [salt]"

subsection \<open>Upload: \<^verbatim>\<open>FileAsyncIterable\<close>\<close>

text \<open>Decimal rendering of a number inside a template literal.\<close>

fun show_nat :: "nat \<Rightarrow> string" where
  "show_nat n =
     (if n < 10 then [char_of (48 + n)]
      else show_nat (n div 10) @ [char_of (48 + n mod 10)])"

declare show_nat.simps [simp del]

definition show_int :: "int \<Rightarrow> string" where
  "show_int i = (if i < 0 then ''-'' @ show_nat (nat (- i)) else show_nat (nat i))"

record Digest =
  hash :: string
  sizeBytes :: int

record WriteRequest =
  resourceName :: string
  data :: "8 word list"
  writeOffset :: int
  finishWrite :: bool

record WriteResponse =
  committedSize :: int

record FileAsyncIterable =
  filePath :: string
  fileByteLength :: int
  fileHash :: string
  chunkSize :: int
  digest :: Digest

text \<open>
  The constructor: \<^verbatim>\<open>this.chunkSize = data.uploadChunkSize || MESSAGE_SIZE\<close>, so an absent or
  zero \<^verbatim>\<open>uploadChunkSize\<close> gives the default.
\<close>

definition new_FileAsyncIterable :: "string \<Rightarrow> int \<Rightarrow> string \<Rightarrow> int option \<Rightarrow> FileAsyncIterable" where
  "new_FileAsyncIterable path byteLength versionHash uploadChunkSize =
     \<lparr> filePath = path,
       fileByteLength = byteLength,
       fileHash = versionHash,
       chunkSize = (case uploadChunkSize of
                      Some n \<Rightarrow> if n \<noteq> 0 then n else MESSAGE_SIZE
                    | None \<Rightarrow> MESSAGE_SIZE),
       digest = \<lparr> hash = versionHash, sizeBytes = byteLength \<rparr> \<rparr>"

text \<open>
  The body of \<^verbatim>\<open>for await (const chunk of readableStream)\<close>: one request per chunk that the
  stream delivers. \<^verbatim>\<open>chunk_size\<close> is computed from \<^verbatim>\<open>remaining\<close> and \<^verbatim>\<open>this.chunkSize\<close>;
  the request carries the chunk as delivered.
\<close>

fun upload_loop ::
  "FileAsyncIterable \<Rightarrow> string \<Rightarrow> int \<Rightarrow> int \<Rightarrow> 8 word list list \<Rightarrow> WriteRequest list" where
  "upload_loop this rn offset remaining [] = []"
| "upload_loop this rn offset remaining (chunk # rest) =
     (let chunk_size = min remaining (chunkSize this);
          remaining = remaining - chunk_size;
          request = \<lparr> resourceName = rn, data = chunk, writeOffset = offset,
                      finishWrite = (remaining \<le> 0) \<rparr>
      in request # upload_loop this rn (offset + chunk_size) remaining rest)"

text \<open>
  \<^verbatim>\<open>[Symbol.asyncIterator]\<close>: \<open>uuid\<close> is the value of \<^verbatim>\<open>crypto.randomUUID()\<close>, and
  \<open>createReadStream\<close> gives the chunks that the read stream of a file delivers for a
  \<^verbatim>\<open>highWaterMark\<close>.
\<close>

definition asyncIterator ::
  "FileAsyncIterable \<Rightarrow> string \<Rightarrow> (string \<Rightarrow> int \<Rightarrow> 8 word list list) \<Rightarrow> WriteRequest list" where
  "asyncIterator this uuid createReadStream =
     (let rn = ''/uploads/'' @ uuid @ ''/blobs/'' @ hash (digest this) @ ''/''
                 @ show_int (fileByteLength this);
          readableStream = createReadStream (filePath this) (chunkSize this);
          offset = 0;
          remaining = fileByteLength this - offset
      in upload_loop this rn offset remaining readableStream)"

subsection \<open>The remote store and the trace of an operation\<close>

record OutputFile =
  path :: string
  digest :: "Digest option"

record ActionResult =
  outputFiles :: "OutputFile list"

record UpdateActionResultRequest =
  actionResult :: ActionResult
  actionDigest :: Digest

text \<open>
  The remote store answers each call with a value or with a failure. \<open>getActionResult\<close> and
  \<open>updateActionResult\<close> are the calls of the action-cache client (the request is its
  \<^verbatim>\<open>actionDigest.hash\<close>, respectively the whole request); \<open>byteStream_write\<close> and
  \<open>byteStream_read\<close> are \<^verbatim>\<open>write\<close> and \<^verbatim>\<open>read\<close> of the byte-stream client.
\<close>

record remote =
  getActionResult :: "string \<Rightarrow> js_error + ActionResult"
  updateActionResult :: "UpdateActionResultRequest \<Rightarrow> js_error + unit"
  byteStream_write :: "WriteRequest list \<Rightarrow> js_error + WriteResponse"
  byteStream_read :: "string \<Rightarrow> js_error + 8 word list list"

text \<open>
  The trace of an operation lists, in program order, the calls issued to the remote store,
  the messages that the error handlers log (\<^verbatim>\<open>core.error\<close>, \<^verbatim>\<open>core.warning\<close>, and the
  \<^verbatim>\<open>core.info\<close> of the save handler), the file written by a download and the archive removed
  at the end. Debug and progress messages are left out.
\<close>

datatype event =
    GetActionResultCall string
  | UpdateActionResultCall UpdateActionResultRequest
  | WriteCall "WriteRequest list"
  | ReadCall string
  | core_error string
  | core_warning string
  | core_info string
  | FileWritten string "8 word list"
  | UnlinkFile string

fun is_registration :: "event \<Rightarrow> bool" where
  "is_registration (UpdateActionResultCall r) = True"
| "is_registration e = False"

type_synonym 'a io = "event list \<times> (js_error + 'a)"

text \<open>
  The message that the handlers of \<^verbatim>\<open>saveCache\<close> and \<^verbatim>\<open>downloadCache\<close> log: the prefix,
  extended with code and reason when the failure is a \<^verbatim>\<open>ConnectError\<close>.
\<close>

fun failure_text :: "string \<Rightarrow> js_error \<Rightarrow> string" where
  "failure_text errMsg (ConnectError c raw m) =
     errMsg @ '' code error: '' @ code_name c @ '', reason: '' @ raw"
| "failure_text errMsg (Error n m) = errMsg"

subsection \<open>\<^verbatim>\<open>saveCache\<close> of the gRPC client\<close>

definition saveCache ::
  "(string \<Rightarrow> string) \<Rightarrow> process \<Rightarrow> remote \<Rightarrow> string \<Rightarrow> (string \<Rightarrow> int \<Rightarrow> 8 word list list)
    \<Rightarrow> string \<Rightarrow> string list \<Rightarrow> string \<Rightarrow> string \<Rightarrow> bool \<Rightarrow> int \<Rightarrow> int option \<Rightarrow> unit io" where
  "saveCache sha256_hex proc rem uuid createReadStream
       key paths archivePath compressionMethod enableCrossOsArchive archiveFileSize uploadChunkSize =
     (if \<not> truthy (remoteCacheUrl proc) then
        ([], Inl (new_Error
          ''Environment variable NATIVELINK_REMOTE_CACHE_URL parameter is missing''))
      else if \<not> truthy (apiKey proc) then
        ([], Inl (new_Error ''Environment variable NATIVELINK_API_KEY parameter is missing''))
      else
        let versionHash = getCacheVersion sha256_hex proc paths (Some compressionMethod)
                            enableCrossOsArchive None;
            file = new_FileAsyncIterable archivePath archiveFileSize versionHash uploadChunkSize;
            frames = asyncIterator file uuid createReadStream
        in case byteStream_write rem frames of
             Inl err \<Rightarrow>
               ([WriteCall frames, core_error (failure_text ''Failed to upload file'' err)],
                Inl err)
           | Inr writeResult \<Rightarrow>
               if committedSize writeResult < archiveFileSize then
                 ([WriteCall frames],
                  Inl (new_Error ''The upload process failed to send the entire file content''))
               else
                 let keyHash = getCacheVersion sha256_hex proc paths (Some compressionMethod)
                                 enableCrossOsArchive (Some key);
                     result = \<lparr> outputFiles =
                                  [\<lparr> path = archivePath,
                                     digest = Some (FileAsyncIterable.digest file) \<rparr>] \<rparr>;
                     request = \<lparr> actionResult = result,
                                 actionDigest = \<lparr> hash = keyHash, sizeBytes = 0 \<rparr> \<rparr>
                 in (case updateActionResult rem request of
                       Inl err \<Rightarrow>
                         ([WriteCall frames, UpdateActionResultCall request,
                           core_error (failure_text ''Failed to upload action result'' err)],
                          Inl err)
                     | Inr u \<Rightarrow> ([WriteCall frames, UpdateActionResultCall request], Inr ())))"

subsection \<open>Key resolution: \<^verbatim>\<open>getCacheEntry\<close>\<close>

text \<open>
  The \<^verbatim>\<open>try\<close> block of the primary lookup: the call, the check that the action result holds
  a file, and the digest of its first file (an optional message field).
\<close>

definition primary_try :: "remote \<Rightarrow> string \<Rightarrow> js_error + Digest option" where
  "primary_try rem primaryKeyHash =
     (case getActionResult rem primaryKeyHash of
        Inl err \<Rightarrow> Inl err
      | Inr primaryActionResult \<Rightarrow>
          (case outputFiles primaryActionResult of
             [] \<Rightarrow> Inl (new_Error (''Action result with primaryKeyHash: '' @ primaryKeyHash
                                      @ '' doesn'' @ [CHR 0x27] @ ''t contain any file''))
           | f # fs \<Rightarrow> Inr (OutputFile.digest f)))"

text \<open>
  \<^verbatim>\<open>getActionResultProms\<close>: one lookup per restore key, issued in the order of the keys; each
  promise settles with the action result or, through \<^verbatim>\<open>.catch(err => err)\<close>, with the failure.
\<close>

definition getActionResultProms ::
  "(string \<Rightarrow> string) \<Rightarrow> process \<Rightarrow> remote \<Rightarrow> string list \<Rightarrow> string list \<Rightarrow> string \<Rightarrow> bool
    \<Rightarrow> event list \<times> (js_error + ActionResult) list" where
  "getActionResultProms sha256_hex proc rem paths restoreKeys compressionMethod enableCrossOsArchive =
     (let keyHashes = map (\<lambda>key. getCacheVersion sha256_hex proc paths (Some compressionMethod)
                                   enableCrossOsArchive (Some key)) restoreKeys
      in (map GetActionResultCall keyHashes, map (getActionResult rem) keyHashes))"

text \<open>
  \<^verbatim>\<open>Promise.all\<close>: the promises settle in an order that the environment chooses, given by
  \<open>completion\<close>, a permutation of their indices; the resulting array holds the settled values
  by the index of their promise.
\<close>

definition Promise_all :: "nat list \<Rightarrow> 'a list \<Rightarrow> 'a list" where
  "Promise_all completion proms = map (\<lambda>i. proms ! i) (sort completion)"

text \<open>
  The scan \<^verbatim>\<open>for (const p of proms)\<close> with its variables \<^verbatim>\<open>hasError\<close> and \<^verbatim>\<open>errMsg\<close>. An
  action result without files is neither of the first two cases: it reaches the last branch,
  where \<^verbatim>\<open>(p as Error).message\<close> is \<^verbatim>\<open>undefined\<close>.
\<close>

fun scan_proms :: "bool \<Rightarrow> string \<Rightarrow> (js_error + ActionResult) list \<Rightarrow> js_error + Digest option" where
  "scan_proms hasError errMsg [] =
     (if hasError then Inl (new_Error errMsg) else Inr None)"
| "scan_proms hasError errMsg (Inr p # ps) =
     (case outputFiles p of
        f # fs \<Rightarrow> Inr (OutputFile.digest f)
      | [] \<Rightarrow> scan_proms True (errMsg @ ''undefined'') ps)"
| "scan_proms hasError errMsg (Inl (ConnectError c raw m) # ps) =
     (if c \<noteq> NotFound
      then scan_proms True (errMsg @ ''error code: '' @ code_name c @ '', message: '' @ raw) ps
      else scan_proms hasError errMsg ps)"
| "scan_proms hasError errMsg (Inl (Error n m) # ps) =
     scan_proms True (errMsg @ m) ps"

definition getCacheEntry ::
  "(string \<Rightarrow> string) \<Rightarrow> process \<Rightarrow> remote \<Rightarrow> nat list
    \<Rightarrow> string list \<Rightarrow> string \<Rightarrow> string list option \<Rightarrow> string \<Rightarrow> bool \<Rightarrow> Digest option io" where
  "getCacheEntry sha256_hex proc rem completion
       paths primaryKey restoreKeys compressionMethod enableCrossOsArchive =
     (let primaryKeyHash = getCacheVersion sha256_hex proc paths (Some compressionMethod)
                             enableCrossOsArchive (Some primaryKey);
          errMsg = ''Failed to retrieve action result for primaryKeyHash: '' @ primaryKeyHash
      in case primary_try rem primaryKeyHash of
           Inr d \<Rightarrow> ([GetActionResultCall primaryKeyHash], Inr d)
         | Inl (Error n m) \<Rightarrow>
             ([GetActionResultCall primaryKeyHash, core_error errMsg], Inl (Error n m))
         | Inl (ConnectError c raw m) \<Rightarrow>
             (let logged = (if c \<noteq> NotFound
                            then [core_error (failure_text errMsg (ConnectError c raw m))]
                            else [])
              in case restoreKeys of
                   None \<Rightarrow> (GetActionResultCall primaryKeyHash # logged, Inr None)
                 | Some [] \<Rightarrow> (GetActionResultCall primaryKeyHash # logged, Inr None)
                 | Some (k # ks) \<Rightarrow>
                     (let (calls, proms) = getActionResultProms sha256_hex proc rem paths (k # ks)
                                             compressionMethod enableCrossOsArchive;
                          settled = Promise_all completion proms
                      in (GetActionResultCall primaryKeyHash # logged @ calls,
                          scan_proms False [] settled))))"

subsection \<open>\<^verbatim>\<open>downloadCache\<close>\<close>

text \<open>
  \<open>writeToFile\<close> is the outcome of piping the response stream into the file; the bytes are
  those of the responses, in the order received.
\<close>

definition downloadCache ::
  "remote \<Rightarrow> (string \<Rightarrow> 8 word list \<Rightarrow> js_error + unit) \<Rightarrow> Digest \<Rightarrow> string \<Rightarrow> unit io" where
  "downloadCache rem writeToFile blobDigest archivePath =
     (let rn = ''blobs/'' @ hash blobDigest @ ''/'' @ show_int (sizeBytes blobDigest)
      in case byteStream_read rem rn of
           Inl err \<Rightarrow>
             ([ReadCall rn, core_error (failure_text ''Failed to download blob'' err)], Inl err)
         | Inr responses \<Rightarrow>
             (case writeToFile archivePath (concat responses) of
                Inl err \<Rightarrow>
                  ([ReadCall rn, core_error (failure_text ''Failed to download blob'' err)],
                   Inl err)
              | Inr u \<Rightarrow> ([ReadCall rn, FileWritten archivePath (concat responses)], Inr ())))"

subsection \<open>The cache service\<close>

text \<open>
  The collaborators outside the repository (\<^verbatim>\<open>@actions/cache\<close> utilities, \<^verbatim>\<open>tar\<close>, \<^verbatim>\<open>path\<close>,
  \<^verbatim>\<open>fs\<close>, \<^verbatim>\<open>crypto\<close>), each with the outcome of its call. The outcome of \<^verbatim>\<open>unlinkFile\<close> is not
  listed: both operations discard it.
\<close>

record utils =
  getCompressionMethod :: "js_error + string"
  resolvePaths :: "string list \<Rightarrow> js_error + string list"
  createTempDirectory :: "js_error + string"
  getCacheFileName :: "string \<Rightarrow> string"
  path_join :: "string \<Rightarrow> string \<Rightarrow> string"
  createTar :: "string \<Rightarrow> string list \<Rightarrow> string \<Rightarrow> js_error + unit"
  listTar :: "string \<Rightarrow> string \<Rightarrow> js_error + unit"
  extractTar :: "string \<Rightarrow> string \<Rightarrow> js_error + unit"
  getArchiveFileSizeInBytes :: "string \<Rightarrow> js_error + int"
  isGhes :: bool
  isDebug :: bool
  createReadStream :: "string \<Rightarrow> int \<Rightarrow> 8 word list list"
  writeToFile :: "string \<Rightarrow> 8 word list \<Rightarrow> js_error + unit"
  randomUUID :: string

definition fileSizeLimit :: int where
  "fileSizeLimit = 20 * 1024 * 1024 * 1024"

text \<open>\<^verbatim>\<open>Math.round(a / b)\<close> for integers \<open>a\<close> and \<open>b > 0\<close>: the floor of \<open>a / b + 1 / 2\<close>.\<close>

definition Math_round_div :: "int \<Rightarrow> int \<Rightarrow> int" where
  "Math_round_div a b = (2 * a + b) div (2 * b)"

definition checkPaths :: "string list \<Rightarrow> js_error + unit" where
  "checkPaths paths =
     (if paths = [] then
        Inl (ValidationError
          ''Path Validation Error: At least one directory or file path is required'')
      else Inr ())"

text \<open>The regular expression \<^verbatim>\<open>/^[^,]*$/\<close>: every code unit of the string differs from the comma.\<close>

definition regex_test :: "string \<Rightarrow> bool" where
  "regex_test key = list_all (\<lambda>c. c \<noteq> CHR '','') key"

definition checkKey :: "string \<Rightarrow> js_error + unit" where
  "checkKey key =
     (if length key > 512 then
        Inl (ValidationError
          (''Key Validation Error: '' @ key @ '' cannot be larger than 512 characters.''))
      else if \<not> regex_test key then
        Inl (ValidationError (''Key Validation Error: '' @ key @ '' cannot contain commas.''))
      else Inr ())"

text \<open>\<^verbatim>\<open>for (const key of keys) { checkKey(key); }\<close>\<close>

fun checkKeys :: "string list \<Rightarrow> js_error + unit" where
  "checkKeys [] = Inr ()"
| "checkKeys (key # keys) =
     (case checkKey key of Inl e \<Rightarrow> Inl e | Inr u \<Rightarrow> checkKeys keys)"

text \<open>
  The \<^verbatim>\<open>try\<close> block of \<^verbatim>\<open>restoreCache\<close>. The first component of the result is the value of the
  variable \<^verbatim>\<open>archivePath\<close> when the block is left. \<open>lookupOnly\<close> is the truth value of
  \<^verbatim>\<open>options?.lookupOnly\<close>.
\<close>

definition restoreCache_try ::
  "(string \<Rightarrow> string) \<Rightarrow> process \<Rightarrow> remote \<Rightarrow> utils \<Rightarrow> nat list
    \<Rightarrow> string list \<Rightarrow> string \<Rightarrow> string list \<Rightarrow> bool \<Rightarrow> bool \<Rightarrow> string
    \<Rightarrow> string \<times> string option io" where
  "restoreCache_try sha256_hex proc rem ext completion
       paths primaryKey restoreKeys lookupOnly enableCrossOsArchive compressionMethod =
     (case getCacheEntry sha256_hex proc rem completion paths primaryKey (Some restoreKeys)
             compressionMethod enableCrossOsArchive of
        (ev, Inl e) \<Rightarrow> ([], ev, Inl e)
      | (ev, Inr None) \<Rightarrow> ([], ev, Inr None)
      | (ev, Inr (Some cacheEntry)) \<Rightarrow>
          if lookupOnly then ([], ev, Inr (Some (hash cacheEntry)))
          else
            (case createTempDirectory ext of
               Inl e \<Rightarrow> ([], ev, Inl e)
             | Inr dir \<Rightarrow>
                 (let archivePath = path_join ext dir (getCacheFileName ext compressionMethod)
                  in case downloadCache rem (writeToFile ext) cacheEntry archivePath of
                       (ev2, Inl e) \<Rightarrow> (archivePath, ev @ ev2, Inl e)
                     | (ev2, Inr u) \<Rightarrow>
                         (case (if isDebug ext then listTar ext archivePath compressionMethod
                                else Inr ()) of
                            Inl e \<Rightarrow> (archivePath, ev @ ev2, Inl e)
                          | Inr u \<Rightarrow>
                              (case getArchiveFileSizeInBytes ext archivePath of
                                 Inl e \<Rightarrow> (archivePath, ev @ ev2, Inl e)
                               | Inr archiveFileSize \<Rightarrow>
                                   (case extractTar ext archivePath compressionMethod of
                                      Inl e \<Rightarrow> (archivePath, ev @ ev2, Inl e)
                                    | Inr u \<Rightarrow>
                                        (archivePath, ev @ ev2,
                                         Inr (Some (hash cacheEntry)))))))))"

text \<open>
  \<^verbatim>\<open>try\<close>, \<^verbatim>\<open>catch\<close> and \<^verbatim>\<open>finally\<close> of \<^verbatim>\<open>restoreCache\<close>: a failure whose name is
  \<^verbatim>\<open>ValidationError\<close> is thrown again, any other is logged as a warning and the operation
  returns \<^verbatim>\<open>undefined\<close>; the archive is removed on every path.
\<close>

definition restoreCache_guarded ::
  "(string \<Rightarrow> string) \<Rightarrow> process \<Rightarrow> remote \<Rightarrow> utils \<Rightarrow> nat list
    \<Rightarrow> string list \<Rightarrow> string \<Rightarrow> string list \<Rightarrow> bool \<Rightarrow> bool \<Rightarrow> string \<Rightarrow> string option io" where
  "restoreCache_guarded sha256_hex proc rem ext completion
       paths primaryKey restoreKeys lookupOnly enableCrossOsArchive compressionMethod =
     (case restoreCache_try sha256_hex proc rem ext completion paths primaryKey restoreKeys
             lookupOnly enableCrossOsArchive compressionMethod of
        (archivePath, ev, Inr v) \<Rightarrow> (ev @ [UnlinkFile archivePath], Inr v)
      | (archivePath, ev, Inl error) \<Rightarrow>
          if error_name error = ValidationError_name
          then (ev @ [UnlinkFile archivePath], Inl error)
          else (ev @ [core_warning (''Failed to restore: '' @ error_message error),
                      UnlinkFile archivePath],
                Inr None))"

definition CasCacheService_restoreCache ::
  "(string \<Rightarrow> string) \<Rightarrow> process \<Rightarrow> remote \<Rightarrow> utils \<Rightarrow> nat list
    \<Rightarrow> string list \<Rightarrow> string \<Rightarrow> string list option \<Rightarrow> bool \<Rightarrow> bool \<Rightarrow> string option io" where
  "CasCacheService_restoreCache sha256_hex proc rem ext completion
       paths primaryKey restoreKeys lookupOnly enableCrossOsArchive =
     (case checkPaths paths of
        Inl e \<Rightarrow> ([], Inl e)
      | Inr u \<Rightarrow>
          (let restoreKeys = (case restoreKeys of None \<Rightarrow> [] | Some ks \<Rightarrow> ks);
               keys = primaryKey # restoreKeys
           in if length keys > 10 then
                ([], Inl (ValidationError
                  ''Key Validation Error: Keys are limited to a maximum of 10.''))
              else
                (case checkKeys keys of
                   Inl e \<Rightarrow> ([], Inl e)
                 | Inr u \<Rightarrow>
                     (case getCompressionMethod ext of
                        Inl e \<Rightarrow> ([], Inl e)
                      | Inr compressionMethod \<Rightarrow>
                          restoreCache_guarded sha256_hex proc rem ext completion paths
                            primaryKey restoreKeys lookupOnly enableCrossOsArchive
                            compressionMethod))))"

text \<open>
  The \<^verbatim>\<open>try\<close> block of \<^verbatim>\<open>CasCacheService.saveCache\<close>; the value on success is the new
  \<^verbatim>\<open>cacheId\<close>.
\<close>

definition saveCache_try ::
  "(string \<Rightarrow> string) \<Rightarrow> process \<Rightarrow> remote \<Rightarrow> utils
    \<Rightarrow> string list \<Rightarrow> string \<Rightarrow> bool \<Rightarrow> int option \<Rightarrow> string \<Rightarrow> string list \<Rightarrow> string \<Rightarrow> string
    \<Rightarrow> int io" where
  "saveCache_try sha256_hex proc rem ext
       paths key enableCrossOsArchive uploadChunkSize
       compressionMethod cachePaths archiveFolder archivePath =
     (case createTar ext archiveFolder cachePaths compressionMethod of
        Inl e \<Rightarrow> ([], Inl e)
      | Inr u \<Rightarrow>
          (case (if isDebug ext then listTar ext archivePath compressionMethod else Inr ()) of
             Inl e \<Rightarrow> ([], Inl e)
           | Inr u \<Rightarrow>
               (case getArchiveFileSizeInBytes ext archivePath of
                  Inl e \<Rightarrow> ([], Inl e)
                | Inr archiveFileSize \<Rightarrow>
                    if archiveFileSize > fileSizeLimit \<and> \<not> isGhes ext then
                      ([], Inl (new_Error
                        (''Cache size of ~'' @ show_int (Math_round_div archiveFileSize (1024 * 1024))
                          @ '' MB ('' @ show_int archiveFileSize
                          @ '' B) is over the 20GB limit, not saving cache.'')))
                    else
                      (case saveCache sha256_hex proc rem (randomUUID ext) (createReadStream ext)
                              key paths archivePath compressionMethod enableCrossOsArchive
                              archiveFileSize uploadChunkSize of
                         (ev, Inl e) \<Rightarrow> (ev, Inl e)
                       | (ev, Inr u) \<Rightarrow> (ev, Inr 1)))))"

text \<open>
  \<^verbatim>\<open>try\<close>, \<^verbatim>\<open>catch\<close> and \<^verbatim>\<open>finally\<close> of \<^verbatim>\<open>CasCacheService.saveCache\<close>: a failure whose name
  is \<^verbatim>\<open>ValidationError\<close> is thrown again; any other is logged, with \<^verbatim>\<open>core.info\<close> when its name
  is \<^verbatim>\<open>ReserveCacheError\<close> and with \<^verbatim>\<open>core.warning\<close> otherwise, and \<^verbatim>\<open>cacheId\<close> keeps its
  initial value \<open>-1\<close>; the archive is removed on every path.
\<close>

definition saveCache_guarded ::
  "(string \<Rightarrow> string) \<Rightarrow> process \<Rightarrow> remote \<Rightarrow> utils
    \<Rightarrow> string list \<Rightarrow> string \<Rightarrow> bool \<Rightarrow> int option \<Rightarrow> string \<Rightarrow> string list \<Rightarrow> string \<Rightarrow> string
    \<Rightarrow> int io" where
  "saveCache_guarded sha256_hex proc rem ext
       paths key enableCrossOsArchive uploadChunkSize
       compressionMethod cachePaths archiveFolder archivePath =
     (case saveCache_try sha256_hex proc rem ext paths key enableCrossOsArchive uploadChunkSize
             compressionMethod cachePaths archiveFolder archivePath of
        (ev, Inr cacheId) \<Rightarrow> (ev @ [UnlinkFile archivePath], Inr cacheId)
      | (ev, Inl error) \<Rightarrow>
          if error_name error = ValidationError_name then
            (ev @ [UnlinkFile archivePath], Inl error)
          else if error_name error = ReserveCacheError_name then
            (ev @ [core_info (''Failed to save: '' @ error_message error),
                   UnlinkFile archivePath],
             Inr (- 1))
          else
            (ev @ [core_warning (''Failed to save: '' @ error_message error),
                   UnlinkFile archivePath],
             Inr (- 1)))"

definition CasCacheService_saveCache ::
  "(string \<Rightarrow> string) \<Rightarrow> process \<Rightarrow> remote \<Rightarrow> utils
    \<Rightarrow> string list \<Rightarrow> string \<Rightarrow> bool \<Rightarrow> int option \<Rightarrow> int io" where
  "CasCacheService_saveCache sha256_hex proc rem ext
       paths key enableCrossOsArchive uploadChunkSize =
     (if (case uploadChunkSize of
            Some n \<Rightarrow> n \<noteq> 0 \<and> n * 1024 > MAX_GRPC_REQUEST_SIZE
          | None \<Rightarrow> False) then
        ([], Inl (ValidationError (''UploadChunkSize input cannot exceed the value of: ''
                                    @ show_int MAX_GRPC_REQUEST_SIZE @ '' MB'')))
      else
        (case checkPaths paths of
           Inl e \<Rightarrow> ([], Inl e)
         | Inr u \<Rightarrow>
             (case checkKey key of
                Inl e \<Rightarrow> ([], Inl e)
              | Inr u \<Rightarrow>
                  (case getCompressionMethod ext of
                     Inl e \<Rightarrow> ([], Inl e)
                   | Inr compressionMethod \<Rightarrow>
                       (case resolvePaths ext paths of
                          Inl e \<Rightarrow> ([], Inl e)
                        | Inr cachePaths \<Rightarrow>
                            if cachePaths = [] then
                              ([], Inl (ValidationError
                                (''Path Validation Error: Path(s) specified in the action for ''
                                  @ ''caching do(es) not exist, hence no cache is being saved.'')))
                            else
                              (case createTempDirectory ext of
                                 Inl e \<Rightarrow> ([], Inl e)
                               | Inr archiveFolder \<Rightarrow>
                                   saveCache_guarded sha256_hex proc rem ext paths key
                                     enableCrossOsArchive uploadChunkSize compressionMethod
                                     cachePaths archiveFolder
                                     (path_join ext archiveFolder
                                        (getCacheFileName ext compressionMethod))))))))"

subsection \<open>Concrete inputs\<close>

text \<open>A Linux runner with both NativeLink variables set and no \<^verbatim>\<open>VERSION_SALT\<close>.\<close>

definition proc0 :: process where
  "proc0 = \<lparr> platform = ''linux'', NATIVELINK_REMOTE_CACHE_URL = Some ''https://cache'',
             NATIVELINK_API_KEY = Some ''secret'', VERSION_SALT = None \<rparr>"

text \<open>
  What the read stream of a regular file delivers for a \<^verbatim>\<open>highWaterMark\<close> of \<open>C\<close> bytes: chunks of
  exactly \<open>C\<close> bytes, except the last, which is not empty and has at most \<open>C\<close> bytes.
\<close>

fun delivers_full_chunks :: "int \<Rightarrow> 8 word list list \<Rightarrow> bool" where
  "delivers_full_chunks C [] = True"
| "delivers_full_chunks C [c] = (0 < length c \<and> int (length c) \<le> C)"
| "delivers_full_chunks C (c # cs) = (int (length c) = C \<and> delivers_full_chunks C cs)"

text \<open>The weaker condition: no chunk has more than \<open>C\<close> bytes.\<close>

definition delivers_bounded_chunks :: "int \<Rightarrow> 8 word list list \<Rightarrow> bool" where
  "delivers_bounded_chunks C chunks = list_all (\<lambda>c. int (length c) \<le> C) chunks"

text \<open>An archive of four bytes, uploaded with a chunk size of four, that the stream delivers in two halves.\<close>

definition file4 :: FileAsyncIterable where
  "file4 = new_FileAsyncIterable ''/tmp/cache.tzst'' 4 ''37ed'' (Some 4)"

definition halves :: "string \<Rightarrow> int \<Rightarrow> 8 word list list" where
  "halves p highWaterMark = [[1, 2], [3, 4]]"

text \<open>An archive of ten bytes, uploaded with a chunk size of four.\<close>

definition file10 :: FileAsyncIterable where
  "file10 = new_FileAsyncIterable ''/tmp/cache.tzst'' 10 ''37ed'' (Some 4)"

definition fours :: "string \<Rightarrow> int \<Rightarrow> 8 word list list" where
  "fours p highWaterMark = [[1, 2, 3, 4], [5, 6, 7, 8], [9, 10]]"

text \<open>
  A remote store for the path \<open>node_modules\<close> and the compression method \<open>gzip\<close>. The three
  hashes are the fingerprints of the keys \<open>linux-build-abc\<close>, \<open>linux-build-\<close> and \<open>linux-\<close>
  on \<open>proc0\<close>; the store answers a lookup of each with the given outcome. The digests
  \<open>blobA\<close> and \<open>blobB\<close> carry the hash that \<^verbatim>\<open>saveCache\<close> gives an archive of these paths: the
  fingerprint computed without a key.
\<close>

definition paths0 :: "string list" where
  "paths0 = [''node_modules'']"

definition hashP :: string where
  "hashP = ''6bb01e7e1bd2c053f3fcb5f36c03a3ef2f5b8c4ce8f949931ec28e7241d1e1cf''"

definition hash1 :: string where
  "hash1 = ''e66a18f5f3f9f15f015dd5b47637a1fa767f0ffe40650c89577c36f7090bfa5b''"

definition hash2 :: string where
  "hash2 = ''c82a0f2dceebb11a9e26a141ca7bc7987c3424697be7ba0e7aa1547b135ef0b6''"

definition not_found :: "js_error + ActionResult" where
  "not_found = Inl (ConnectError NotFound ''no action result'' ''[not_found] no action result'')"

definition unavailable :: "js_error + ActionResult" where
  "unavailable = Inl (ConnectError Unavailable ''connection refused''
                        ''[unavailable] connection refused'')"

definition permission_denied :: "js_error + ActionResult" where
  "permission_denied = Inl (ConnectError PermissionDenied ''bad key''
                              ''[permission_denied] bad key'')"

definition stored :: "Digest \<Rightarrow> js_error + ActionResult" where
  "stored d = Inr \<lparr> outputFiles = [\<lparr> path = ''/tmp/cache.tgz'', digest = Some d \<rparr>] \<rparr>"

definition blobA :: Digest where
  "blobA = \<lparr> hash = ''470e252814dbffc9524891b17cf4e5749b26c1b5026e63dd3f00972db2393117'',
             sizeBytes = 10 \<rparr>"

definition blobB :: Digest where
  "blobB = \<lparr> hash = ''470e252814dbffc9524891b17cf4e5749b26c1b5026e63dd3f00972db2393117'',
             sizeBytes = 7 \<rparr>"

definition store3 ::
  "(js_error + ActionResult) \<Rightarrow> (js_error + ActionResult) \<Rightarrow> (js_error + ActionResult)
    \<Rightarrow> remote" where
  "store3 rP r1 r2 =
     \<lparr> getActionResult = (\<lambda>h. if h = hashP then rP else if h = hash1 then r1
                                else if h = hash2 then r2 else not_found),
       updateActionResult = (\<lambda>request. Inr ()),
       byteStream_write = (\<lambda>frames. Inr \<lparr> committedSize =
                                               int (\<Sum>f\<leftarrow>frames. length (data f)) \<rparr>),
       byteStream_read = (\<lambda>rn. Inr [[1, 2, 3, 4], [5, 6, 7, 8], [9, 10]]) \<rparr>"

text \<open>
  Outcomes of the lookups of a key resolution: a hit is an action result with at least one
  output file, and its digest is the digest of the first file; a failure is a clean miss when
  it is a \<^verbatim>\<open>ConnectError\<close> with the code \<^verbatim>\<open>NotFound\<close>, and a genuine error otherwise.
\<close>

fun is_hit :: "js_error + ActionResult \<Rightarrow> bool" where
  "is_hit (Inr p) = (outputFiles p \<noteq> [])"
| "is_hit (Inl e) = False"

fun hit_digest :: "js_error + ActionResult \<Rightarrow> Digest option" where
  "hit_digest (Inr p) = (case outputFiles p of [] \<Rightarrow> None | f # fs \<Rightarrow> OutputFile.digest f)"
| "hit_digest (Inl e) = None"

fun is_not_found :: "js_error + ActionResult \<Rightarrow> bool" where
  "is_not_found (Inl (ConnectError c raw m)) = (c = NotFound)"
| "is_not_found r = False"

fun is_genuine_error :: "js_error + ActionResult \<Rightarrow> bool" where
  "is_genuine_error (Inl (ConnectError c raw m)) = (c \<noteq> NotFound)"
| "is_genuine_error (Inl (Error n m)) = True"
| "is_genuine_error (Inr p) = False"

fun is_ConnectError :: "js_error \<Rightarrow> bool" where
  "is_ConnectError (ConnectError c raw m) = True"
| "is_ConnectError (Error n m) = False"

text \<open>What the outcome of one fallback lookup adds to \<^verbatim>\<open>errMsg\<close> in the scan.\<close>

fun fallback_message :: "js_error + ActionResult \<Rightarrow> string" where
  "fallback_message (Inl (ConnectError c raw m)) =
     (if c \<noteq> NotFound then ''error code: '' @ code_name c @ '', message: '' @ raw else [])"
| "fallback_message (Inl (Error n m)) = m"
| "fallback_message (Inr p) = (if outputFiles p = [] then ''undefined'' else [])"

text \<open>The fingerprint of a key and the outcomes of the lookups of a list of keys.\<close>

definition keyHash ::
  "(string \<Rightarrow> string) \<Rightarrow> process \<Rightarrow> string list \<Rightarrow> string \<Rightarrow> bool \<Rightarrow> string \<Rightarrow> string" where
  "keyHash sha256_hex proc paths compressionMethod enableCrossOsArchive key =
     getCacheVersion sha256_hex proc paths (Some compressionMethod) enableCrossOsArchive (Some key)"

definition lookups ::
  "(string \<Rightarrow> string) \<Rightarrow> process \<Rightarrow> remote \<Rightarrow> string list \<Rightarrow> string \<Rightarrow> bool \<Rightarrow> string list
    \<Rightarrow> (js_error + ActionResult) list" where
  "lookups sha256_hex proc rem paths compressionMethod enableCrossOsArchive keys =
     map (\<lambda>key. getActionResult rem
                  (keyHash sha256_hex proc paths compressionMethod enableCrossOsArchive key)) keys"

definition is_lookup :: "event \<Rightarrow> bool" where
  "is_lookup e = (case e of GetActionResultCall h \<Rightarrow> True | _ \<Rightarrow> False)"

definition fetch_failed :: "js_error + ActionResult" where
  "fetch_failed = Inl (Error ''TypeError'' ''fetch failed'')"

text \<open>
  Collaborators that all succeed: the compression method is \<open>gzip\<close>, the archive has ten
  bytes, and its read stream delivers them in chunks of four.
\<close>

definition utils0 :: utils where
  "utils0 =
     \<lparr> getCompressionMethod = Inr ''gzip'',
       resolvePaths = (\<lambda>ps. Inr ps),
       createTempDirectory = Inr ''/tmp/7f3a'',
       getCacheFileName = (\<lambda>cm. ''cache.tgz''),
       path_join = (\<lambda>a b. a @ ''/'' @ b),
       createTar = (\<lambda>folder ps cm. Inr ()),
       listTar = (\<lambda>p cm. Inr ()),
       extractTar = (\<lambda>p cm. Inr ()),
       getArchiveFileSizeInBytes = (\<lambda>p. Inr 10),
       isGhes = False,
       isDebug = False,
       createReadStream = fours,
       writeToFile = (\<lambda>p bytes. Inr ()),
       randomUUID = ''u'' \<rparr>"

text \<open>A store that commits six of the bytes it is sent.\<close>

definition short_store :: remote where
  "short_store =
     (store3 not_found not_found not_found)
       \<lparr> byteStream_write := (\<lambda>frames. Inr \<lparr> committedSize = 6 \<rparr>) \<rparr>"

text \<open>A store that holds the archive under the primary key and fails every download.\<close>

definition unreadable_store :: remote where
  "unreadable_store =
     (store3 (stored blobA) not_found not_found)
       \<lparr> byteStream_read := (\<lambda>rn. Inl (ConnectError Unavailable ''connection refused''
                                          ''[unavailable] connection refused'')) \<rparr>"

text \<open>Collaborators whose temporary directory cannot be created, and whose archiver fails.\<close>

definition utils_no_tmp :: utils where
  "utils_no_tmp =
     utils0 \<lparr> createTempDirectory := Inl (Error ''Error'' ''EACCES: permission denied, mkdir'') \<rparr>"

definition utils_tar_rejects :: utils where
  "utils_tar_rejects =
     utils0 \<lparr> createTar := (\<lambda>folder ps cm. Inl (Error ''ValidationError'' ''bad archive'')) \<rparr>"

section \<open>Properties\<close>

subsection \<open>Key versioning\<close>

lemma sha256_hex_joined_a:
  "createHash_sha256_hex ''a|1.0'' =
     ''37edffbf24856aa98c2c1c41362a68951b2eab789f9e2e5997365c28b393b098''"
  by code_simp

lemma sha256_hex_joined_b:
  "createHash_sha256_hex ''a||1.0'' =
     ''65629b2e657e26eb74d8a1c781831cd803eaeb4a44d925fdb4fa18e8b7b601cc''"
  by code_simp

lemma cacheVersionComponents_ordered:
  "cacheVersionComponents proc paths cm cross key =
     orderedComponents paths cm cross (platform proc = ''win32'') key (versionSalt proc)"
  by (simp add: cacheVersionComponents_def orderedComponents_def nonEmptyComponent_def
      push_def Let_def split: option.splits)

text \<open>
  Claim C1, as amended. For every input, \<^verbatim>\<open>getCacheVersion\<close> returns the hex digest of the
  string formed by joining with \<open>|\<close> the ordered components: the paths in their given order,
  then the compression tag if it is present and not empty, then \<open>windows-only\<close> if the
  platform is \<open>win32\<close> and \<^verbatim>\<open>enableCrossOsArchive\<close> is false, then the symbolic key if it is
  present and not empty, then the salt. Two calls whose paths, compression tag, cross-platform
  flag, platform flag, symbolic key and salt are equal return equal fingerprints.
\<close>

theorem getCacheVersion_components:
  "getCacheVersion sha256_hex proc paths compressionTag crossPlatform symbolicKey =
     sha256_hex (join ''|''
       (orderedComponents paths compressionTag crossPlatform (platform proc = ''win32'')
          symbolicKey (versionSalt proc)))
   \<and> (paths' = paths \<and> compressionTag' = compressionTag \<and> crossPlatform' = crossPlatform
        \<and> (platform proc' = ''win32'') = (platform proc = ''win32'')
        \<and> symbolicKey' = symbolicKey \<and> versionSalt proc' = versionSalt proc
      \<longrightarrow> getCacheVersion sha256_hex proc' paths' compressionTag' crossPlatform' symbolicKey' =
          getCacheVersion sha256_hex proc paths compressionTag crossPlatform symbolicKey)"
  by (simp add: getCacheVersion_def cacheVersionComponents_ordered)

text \<open>
  The theorem of C1 at the path \<open>a\<close> with the empty key, for SHA-256 and two processes that
  differ in a variable the fingerprint does not read.
\<close>

theorem getCacheVersion_components_witness:
  "getCacheVersion createHash_sha256_hex proc0 [''a''] None False (Some '''') =
     ''37edffbf24856aa98c2c1c41362a68951b2eab789f9e2e5997365c28b393b098''
   \<and> getCacheVersion createHash_sha256_hex (proc0\<lparr>NATIVELINK_API_KEY := None\<rparr>)
         [''a''] None False (Some '''') =
       getCacheVersion createHash_sha256_hex proc0 [''a''] None False (Some '''')"
  using getCacheVersion_components [of createHash_sha256_hex proc0 "[''a'']" None False "Some ''''"
      "[''a'']" None False "proc0\<lparr>NATIVELINK_API_KEY := None\<rparr>" "Some ''''"]
  by (simp add: orderedComponents_def nonEmptyComponent_def proc0_def versionSalt_def
      sha256_hex_joined_a)

text \<open>
  Claim C1 as stated fails when the symbolic key is present and empty: the key is then not a
  component, the string hashed is \<open>a|1.0\<close> and not \<open>a||1.0\<close>, and the SHA-256 digests differ.
\<close>

theorem getCacheVersion_present_empty_key_counterexample:
  "getCacheVersion createHash_sha256_hex proc0 [''a''] None False (Some '''') \<noteq>
     createHash_sha256_hex (join ''|''
       (specComponents [''a''] None False (platform proc0 = ''win32'') (Some '''')
          (versionSalt proc0)))"
  by (simp add: getCacheVersion_def cacheVersionComponents_def specComponents_def push_def
      proc0_def versionSalt_def sha256_hex_joined_a sha256_hex_joined_b)

text \<open>
  Claim C10. For every paths list, compression tag and platform configuration, the
  fingerprint computed with the empty symbolic key equals the fingerprint computed with no
  symbolic key, and the fingerprint computed with the empty compression tag equals the one
  computed with no compression tag.
\<close>

theorem getCacheVersion_empty_is_absent:
  "getCacheVersion sha256_hex proc paths compressionTag crossPlatform (Some '''') =
     getCacheVersion sha256_hex proc paths compressionTag crossPlatform None
   \<and> getCacheVersion sha256_hex proc paths (Some '''') crossPlatform symbolicKey =
     getCacheVersion sha256_hex proc paths None crossPlatform symbolicKey"
  by (simp add: getCacheVersion_def cacheVersionComponents_def)

text \<open>The theorem of C10 for SHA-256 at the path \<open>a\<close>: both fingerprints are the digest of \<open>a|1.0\<close>.\<close>

theorem getCacheVersion_empty_is_absent_witness:
  "getCacheVersion createHash_sha256_hex proc0 [''a''] None False None =
     ''37edffbf24856aa98c2c1c41362a68951b2eab789f9e2e5997365c28b393b098''
   \<and> getCacheVersion createHash_sha256_hex proc0 [''a''] None False (Some '''') =
     getCacheVersion createHash_sha256_hex proc0 [''a''] None False None
   \<and> getCacheVersion createHash_sha256_hex proc0 [''a''] (Some '''') False None =
     getCacheVersion createHash_sha256_hex proc0 [''a''] None False None"
  using getCacheVersion_empty_is_absent [of createHash_sha256_hex proc0 "[''a'']" None False None]
  by (simp add: getCacheVersion_def cacheVersionComponents_def push_def proc0_def
      versionSalt_def sha256_hex_joined_a)

subsection \<open>Upload frames\<close>

lemma full_chunks_positive:
  "delivers_full_chunks C cs \<Longrightarrow> cs \<noteq> [] \<Longrightarrow> 0 < C \<Longrightarrow> 0 < length (concat cs)"
  by (induction C cs rule: delivers_full_chunks.induct) auto

lemma upload_loop_length: "length (upload_loop this rn offset remaining chunks) = length chunks"
  by (induction chunks arbitrary: offset remaining) (auto simp: Let_def)

lemma upload_loop_nth:
  "delivers_full_chunks (chunkSize this) chunks \<Longrightarrow> 0 < chunkSize this \<Longrightarrow>
   remaining = int (length (concat chunks)) \<Longrightarrow> i < length chunks \<Longrightarrow>
   upload_loop this rn offset remaining chunks ! i =
     \<lparr> resourceName = rn, data = chunks ! i,
       writeOffset = offset + int i * chunkSize this,
       finishWrite = (Suc i = length chunks) \<rparr>"
proof (induction chunks arbitrary: i offset remaining)
  case Nil
  then show ?case by simp
next
  case (Cons c cs)
  show ?case
  proof (cases cs)
    case Nil
    with Cons.prems show ?thesis by (simp add: Let_def min_def)
  next
    case (Cons d ds)
    with Cons.prems have full: "int (length c) = chunkSize this"
      and rest: "delivers_full_chunks (chunkSize this) cs" by simp_all
    have pos: "0 < length (concat cs)"
      using full_chunks_positive [OF rest] Cons Cons.prems(2) by simp
    have min: "min remaining (chunkSize this) = chunkSize this"
      using Cons.prems(3) full by simp
    have rem: "remaining - chunkSize this = int (length (concat cs))"
      using Cons.prems(3) full by simp
    show ?thesis
    proof (cases i)
      case 0
      moreover have "\<not> remaining - chunkSize this \<le> 0" using rem pos by linarith
      ultimately show ?thesis using min Cons by (simp add: Let_def)
    next
      case (Suc j)
      with Cons.prems(4) have j: "j < length cs" by simp
      have "upload_loop this rn (offset + chunkSize this) (remaining - chunkSize this) cs ! j =
          \<lparr> resourceName = rn, data = cs ! j,
            writeOffset = (offset + chunkSize this) + int j * chunkSize this,
            finishWrite = (Suc j = length cs) \<rparr>"
        by (rule Cons.IH [OF rest Cons.prems(2) rem j])
      then show ?thesis using Suc min by (simp add: Let_def algebra_simps)
    qed
  qed
qed

lemma full_chunks_count:
  "delivers_full_chunks C cs \<Longrightarrow> 0 < C \<Longrightarrow>
   int (length cs) = - ((- int (length (concat cs))) div C)"
proof (induction C cs rule: delivers_full_chunks.induct)
  case (1 C)
  then show ?case by simp
next
  case (2 C c)
  then have "0 < int (length c)" "int (length c) \<le> C" by simp_all
  then have "(- int (length c)) div C = - 1"
    by (smt (verit) div_pos_neg_trivial zdiv_mono1 div_minus_right minus_div_mult_eq_mod)
  then show ?case by simp
next
  case (3 C c d ds)
  then have "int (length (d # ds)) = - ((- int (length (concat (d # ds)))) div C)"
    and c: "int (length c) = C" by simp_all
  moreover have "(- (C + int (length (concat (d # ds))))) div C
      = - 1 + (- int (length (concat (d # ds)))) div C"
    using 3(3) by (smt (verit) div_add_self1)
  ultimately show ?case by simp
qed


lemma show_int_4: "show_int 4 = ''4''"
  by code_simp

lemma show_int_10: "show_int 10 = ''10''"
  by code_simp

lemma upload_loop_sum:
  "(\<Sum>f\<leftarrow>upload_loop this rn offset remaining chunks. length (data f)) = length (concat chunks)"
  by (induction chunks arbitrary: offset remaining) (auto simp: Let_def)

text \<open>
  Claim C2, as amended. For every upload of a file with declared size \<open>S > 0\<close> and frame
  capacity \<open>C > 0\<close>, where the bytes that the read stream delivers are \<open>S\<close> in number and
  come in chunks of exactly \<open>C\<close> bytes, except for a last chunk that is not empty and has at
  most \<open>C\<close> bytes: the upload iterator produces exactly \<open>\<lceil>S / C\<rceil>\<close> frames; the first
  \<^verbatim>\<open>writeOffset\<close> is 0, the offsets increase strictly and each is the offset of the frame
  before plus the length of that frame's chunk; the chunk lengths sum to \<open>S\<close>; and
  \<^verbatim>\<open>finishWrite\<close> is true on the last frame and on no other.
\<close>

theorem upload_frames_full_chunks:
  "0 < S \<Longrightarrow> 0 < C \<Longrightarrow> fileByteLength this = S \<Longrightarrow> chunkSize this = C \<Longrightarrow>
   int (length (concat (readStream (filePath this) C))) = S \<Longrightarrow>
   delivers_full_chunks C (readStream (filePath this) C) \<Longrightarrow>
   (let frames = asyncIterator this uuid readStream
    in int (length frames) = \<lceil>real_of_int S / real_of_int C\<rceil>
       \<and> writeOffset (frames ! 0) = 0
       \<and> (\<forall>i. Suc i < length frames \<longrightarrow>
              writeOffset (frames ! i) < writeOffset (frames ! Suc i)
              \<and> writeOffset (frames ! Suc i) =
                  writeOffset (frames ! i) + int (length (data (frames ! i))))
       \<and> int (\<Sum>f\<leftarrow>frames. length (data f)) = S
       \<and> (\<forall>i < length frames. finishWrite (frames ! i) = (Suc i = length frames)))"
proof -
  assume S: "0 < S" and C: "0 < C" and len: "fileByteLength this = S"
    and cs: "chunkSize this = C"
    and total: "int (length (concat (readStream (filePath this) C))) = S"
    and full: "delivers_full_chunks C (readStream (filePath this) C)"
  define chunks where "chunks = readStream (filePath this) C"
  define rn where "rn = ''/uploads/'' @ uuid @ ''/blobs/'' @ hash (FileAsyncIterable.digest this)
    @ ''/'' @ show_int (fileByteLength this)"
  define frames where "frames = upload_loop this rn 0 S chunks"
  have frames: "asyncIterator this uuid readStream = frames"
    by (simp add: asyncIterator_def frames_def rn_def chunks_def cs len)
  have full': "delivers_full_chunks (chunkSize this) chunks"
    and C': "0 < chunkSize this" and total': "S = int (length (concat chunks))"
    using full C total by (simp_all add: cs chunks_def)
  have nth: "frames ! i = \<lparr> resourceName = rn, data = chunks ! i,
       writeOffset = 0 + int i * chunkSize this, finishWrite = (Suc i = length chunks) \<rparr>"
    if "i < length chunks" for i
    unfolding frames_def by (rule upload_loop_nth [OF full' C' total' that])
  have length: "length frames = length chunks"
    by (simp add: frames_def upload_loop_length)
  have nonempty: "chunks \<noteq> []"
    using S total' by auto
  have count: "int (length frames) = \<lceil>real_of_int S / real_of_int C\<rceil>"
    using full_chunks_count [OF full C] total
    by (simp add: length chunks_def ceiling_divide_eq_div)
  have first: "writeOffset (frames ! 0) = 0"
    using nth [of 0] nonempty by simp
  have step: "writeOffset (frames ! i) < writeOffset (frames ! Suc i)
      \<and> writeOffset (frames ! Suc i) = writeOffset (frames ! i) + int (length (data (frames ! i)))"
    if "Suc i < length frames" for i
  proof -
    from that have i: "i < length chunks" and si: "Suc i < length chunks"
      by (simp_all add: length)
    have "\<not> finishWrite (frames ! i)"
      using nth [OF i] si by simp
    have "int (length (chunks ! i)) = C"
      using full si
      unfolding chunks_def [symmetric]
    proof (induction C chunks arbitrary: i rule: delivers_full_chunks.induct)
      case (3 C c d ds)
      then show ?case by (cases i) simp_all
    qed simp_all
    then show ?thesis
      using nth [OF i] nth [OF si] C by (simp add: cs algebra_simps)
  qed
  have sum: "int (\<Sum>f\<leftarrow>frames. length (data f)) = S"
    by (simp add: frames_def upload_loop_sum total')
  have last: "finishWrite (frames ! i) = (Suc i = length frames)" if "i < length frames" for i
    using nth [of i] that by (simp add: length)
  show ?thesis
    unfolding frames Let_def using count first step sum last by blast
qed

text \<open>
  The theorem of C2 for ten bytes and a capacity of four: three frames, at the offsets 0, 4
  and 8, the last one finishing the write.
\<close>

theorem upload_frames_full_chunks_witness:
  "fileByteLength file10 = 10 \<and> chunkSize file10 = 4
   \<and> int (length (concat (fours (filePath file10) 4))) = 10
   \<and> delivers_full_chunks 4 (fours (filePath file10) 4)
   \<and> asyncIterator file10 ''u'' fours =
         [\<lparr> resourceName = ''/uploads/u/blobs/37ed/10'', data = [1, 2, 3, 4], writeOffset = 0,
             finishWrite = False \<rparr>,
          \<lparr> resourceName = ''/uploads/u/blobs/37ed/10'', data = [5, 6, 7, 8], writeOffset = 4,
             finishWrite = False \<rparr>,
          \<lparr> resourceName = ''/uploads/u/blobs/37ed/10'', data = [9, 10], writeOffset = 8,
             finishWrite = True \<rparr>]
   \<and> (let frames = asyncIterator file10 ''u'' fours
       in int (length frames) = \<lceil>real_of_int 10 / real_of_int 4\<rceil>
          \<and> writeOffset (frames ! 0) = 0
          \<and> (\<forall>i. Suc i < length frames \<longrightarrow>
                 writeOffset (frames ! i) < writeOffset (frames ! Suc i)
                 \<and> writeOffset (frames ! Suc i) =
                     writeOffset (frames ! i) + int (length (data (frames ! i))))
          \<and> int (\<Sum>f\<leftarrow>frames. length (data f)) = 10
          \<and> (\<forall>i < length frames. finishWrite (frames ! i) = (Suc i = length frames)))"
proof -
  have eval: "asyncIterator file10 ''u'' fours =
         [\<lparr> resourceName = ''/uploads/u/blobs/37ed/10'', data = [1, 2, 3, 4], writeOffset = 0,
             finishWrite = False \<rparr>,
          \<lparr> resourceName = ''/uploads/u/blobs/37ed/10'', data = [5, 6, 7, 8], writeOffset = 4,
             finishWrite = False \<rparr>,
          \<lparr> resourceName = ''/uploads/u/blobs/37ed/10'', data = [9, 10], writeOffset = 8,
             finishWrite = True \<rparr>]"
    by (simp add: asyncIterator_def file10_def new_FileAsyncIterable_def fours_def Let_def
        show_int_10)
  have h: "fileByteLength file10 = 10" "chunkSize file10 = 4"
    "int (length (concat (fours (filePath file10) 4))) = 10"
    "delivers_full_chunks 4 (fours (filePath file10) 4)"
    by (simp_all add: file10_def new_FileAsyncIterable_def fours_def)
  have "(0::int) < 10" "(0::int) < 4"
    by simp_all
  from upload_frames_full_chunks
    [where S = 10 and C = 4 and this = file10 and readStream = fours and uuid = "''u''",
      OF this h]
  show ?thesis using eval h by (intro conjI)
qed

text \<open>
  Claim C2 as stated only bounds the chunks by \<open>C\<close>. A stream that delivers four bytes in two
  chunks of two, for a capacity of four, meets its hypotheses; the iterator then produces two
  frames and not \<open>\<lceil>4 / 4\<rceil> = 1\<close>, sets \<^verbatim>\<open>finishWrite\<close> on both, and gives the second frame
  the offset 4 after a chunk of two bytes at offset 0: \<^verbatim>\<open>chunk_size\<close> is computed from
  \<^verbatim>\<open>remaining\<close> and \<^verbatim>\<open>this.chunkSize\<close>, not from the chunk.
\<close>

theorem upload_frames_short_chunks_counterexample:
  "0 < fileByteLength file4 \<and> 0 < chunkSize file4
   \<and> int (length (concat (halves (filePath file4) (chunkSize file4)))) = fileByteLength file4
   \<and> delivers_bounded_chunks (chunkSize file4) (halves (filePath file4) (chunkSize file4))
   \<and> \<lceil>real_of_int (fileByteLength file4) / real_of_int (chunkSize file4)\<rceil> = 1
   \<and> asyncIterator file4 ''u'' halves =
         [\<lparr> resourceName = ''/uploads/u/blobs/37ed/4'', data = [1, 2], writeOffset = 0,
             finishWrite = True \<rparr>,
          \<lparr> resourceName = ''/uploads/u/blobs/37ed/4'', data = [3, 4], writeOffset = 4,
             finishWrite = True \<rparr>]"
  by (simp add: asyncIterator_def file4_def new_FileAsyncIterable_def halves_def Let_def
      show_int_4 delivers_bounded_chunks_def)

subsection \<open>Key resolution\<close>

lemma sha256_hex_primary:
  "createHash_sha256_hex ''node_modules|gzip|linux-build-abc|1.0'' =
     ''6bb01e7e1bd2c053f3fcb5f36c03a3ef2f5b8c4ce8f949931ec28e7241d1e1cf''"
  by code_simp

lemma sha256_hex_fallback1:
  "createHash_sha256_hex ''node_modules|gzip|linux-build-|1.0'' =
     ''e66a18f5f3f9f15f015dd5b47637a1fa767f0ffe40650c89577c36f7090bfa5b''"
  by code_simp

lemma sha256_hex_fallback2:
  "createHash_sha256_hex ''node_modules|gzip|linux-|1.0'' =
     ''c82a0f2dceebb11a9e26a141ca7bc7987c3424697be7ba0e7aa1547b135ef0b6''"
  by code_simp

lemma sha256_hex_keyless:
  "createHash_sha256_hex ''node_modules|gzip|1.0'' =
     ''470e252814dbffc9524891b17cf4e5749b26c1b5026e63dd3f00972db2393117''"
  by code_simp

lemma saved_digest_hash:
  "getCacheVersion createHash_sha256_hex proc0 paths0 (Some ''gzip'') False None = hash blobA"
  "getCacheVersion createHash_sha256_hex proc0 paths0 (Some ''gzip'') False None = hash blobB"
  by (simp_all add: getCacheVersion_def cacheVersionComponents_def push_def paths0_def
      proc0_def versionSalt_def blobA_def blobB_def sha256_hex_keyless)

lemma keyHash_primary:
  "keyHash createHash_sha256_hex proc0 paths0 ''gzip'' False ''linux-build-abc'' = hashP"
  by (simp add: keyHash_def getCacheVersion_def cacheVersionComponents_def push_def paths0_def
      proc0_def versionSalt_def hashP_def sha256_hex_primary)

lemma keyHash_fallback1:
  "keyHash createHash_sha256_hex proc0 paths0 ''gzip'' False ''linux-build-'' = hash1"
  by (simp add: keyHash_def getCacheVersion_def cacheVersionComponents_def push_def paths0_def
      proc0_def versionSalt_def hash1_def sha256_hex_fallback1)

lemma keyHash_fallback2:
  "keyHash createHash_sha256_hex proc0 paths0 ''gzip'' False ''linux-'' = hash2"
  by (simp add: keyHash_def getCacheVersion_def cacheVersionComponents_def push_def paths0_def
      proc0_def versionSalt_def hash2_def sha256_hex_fallback2)

lemma store3_lookup:
  "getActionResult (store3 rP r1 r2) hashP = rP"
  "getActionResult (store3 rP r1 r2) hash1 = r1"
  "getActionResult (store3 rP r1 r2) hash2 = r2"
  by (simp_all add: store3_def hashP_def hash1_def hash2_def)

lemma Promise_all_permutation:
  "mset completion = mset [0..<length proms] \<Longrightarrow> Promise_all completion proms = proms"
proof -
  assume "mset completion = mset [0..<length proms]"
  then have "sort completion = [0..<length proms]"
    by (metis sorted_list_of_multiset_mset sorted_sort_id sorted_upt)
  then show ?thesis
    by (simp add: Promise_all_def map_nth)
qed

lemma scan_proms_no_hit:
  "\<forall>p \<in> set ps. \<not> is_hit p \<Longrightarrow>
   scan_proms hasError errMsg ps =
     (if hasError \<or> (\<exists>p \<in> set ps. \<not> is_not_found p)
      then Inl (new_Error (errMsg @ concat (map fallback_message ps)))
      else Inr None)"
proof (induction hasError errMsg ps rule: scan_proms.induct)
  case (1 hasError errMsg)
  then show ?case by simp
next
  case (2 hasError errMsg p ps)
  then show ?case by (auto split: list.splits)
next
  case (3 hasError errMsg c raw m ps)
  then show ?case by auto
next
  case (4 hasError errMsg n m ps)
  then show ?case by auto
qed

lemma scan_proms_first_hit:
  "\<forall>p \<in> set ps. \<not> is_hit p \<Longrightarrow> is_hit q \<Longrightarrow>
   scan_proms hasError errMsg (ps @ q # qs) = Inr (hit_digest q)"
proof (induction hasError errMsg ps rule: scan_proms.induct)
  case (1 hasError errMsg)
  then show ?case by (cases q) (auto split: list.splits)
next
  case (2 hasError errMsg p ps)
  then show ?case by (auto split: list.splits)
next
  case (3 hasError errMsg c raw m ps)
  then show ?case by auto
next
  case (4 hasError errMsg n m ps)
  then show ?case by auto
qed


lemma primary_try_hit:
  "getActionResult rem h = Inr p \<Longrightarrow> outputFiles p \<noteq> [] \<Longrightarrow>
   primary_try rem h = Inr (hit_digest (Inr p))"
  by (cases "outputFiles p") (simp_all add: primary_try_def)

lemma primary_try_failure:
  "getActionResult rem h = Inl err \<Longrightarrow> primary_try rem h = Inl err"
  by (simp add: primary_try_def)

lemma getActionResultProms_lookups:
  "getActionResultProms sha256_hex proc rem paths keys cm cross =
     (map (\<lambda>key. GetActionResultCall (keyHash sha256_hex proc paths cm cross key)) keys,
      lookups sha256_hex proc rem paths cm cross keys)"
  by (simp add: getActionResultProms_def lookups_def keyHash_def Let_def comp_def)

lemma getCacheEntry_continues:
  assumes "getActionResult rem (keyHash sha256_hex proc paths cm cross primaryKey) =
             Inl (ConnectError c raw m)"
    and "mset completion = mset [0..<length keys]"
  shows "getCacheEntry sha256_hex proc rem completion paths primaryKey (Some keys) cm cross =
     (GetActionResultCall (keyHash sha256_hex proc paths cm cross primaryKey)
        # (if c \<noteq> NotFound
           then [core_error (failure_text
                   (''Failed to retrieve action result for primaryKeyHash: ''
                      @ keyHash sha256_hex proc paths cm cross primaryKey)
                   (ConnectError c raw m))]
           else [])
        @ map (\<lambda>key. GetActionResultCall (keyHash sha256_hex proc paths cm cross key)) keys,
      if keys = [] then Inr None
      else scan_proms False [] (lookups sha256_hex proc rem paths cm cross keys))"
proof (cases keys)
  case Nil
  with assms(1) show ?thesis
    by (simp add: getCacheEntry_def Let_def primary_try_failure keyHash_def)
next
  case (Cons k ks)
  have "length (lookups sha256_hex proc rem paths cm cross keys) = length keys"
    by (simp add: lookups_def)
  with assms(2)
  have "Promise_all completion (lookups sha256_hex proc rem paths cm cross keys) =
      lookups sha256_hex proc rem paths cm cross keys"
    by (simp add: Promise_all_permutation)
  with assms(1) Cons show ?thesis
    by (simp add: getCacheEntry_def Let_def primary_try_failure [unfolded keyHash_def]
        keyHash_def [symmetric] getActionResultProms_lookups)
qed

text \<open>
  Claim C3, as amended. For every key-resolution run, if the lookup of the primary key fails
  with a failure that is not a \<^verbatim>\<open>ConnectError\<close>, resolution aborts immediately with that
  failure: the result is the failure, and the lookup of the primary key is the only lookup
  issued.
\<close>

theorem getCacheEntry_primary_failure_aborts:
  assumes "getActionResult rem (keyHash sha256_hex proc paths cm cross primaryKey) = Inl err"
    and "\<not> is_ConnectError err"
  shows "snd (getCacheEntry sha256_hex proc rem completion paths primaryKey restoreKeys cm cross)
           = Inl err
     \<and> filter is_lookup
          (fst (getCacheEntry sha256_hex proc rem completion paths primaryKey restoreKeys cm cross))
           = [GetActionResultCall (keyHash sha256_hex proc paths cm cross primaryKey)]"
proof -
  from assms(2) obtain n m where "err = Error n m"
    by (cases err) simp_all
  with assms(1) show ?thesis
    by (simp add: getCacheEntry_def Let_def primary_try_failure keyHash_def is_lookup_def)
qed

text \<open>
  Claim C4. If the lookup of the primary key returns an association with at least one
  recorded output, \<^verbatim>\<open>getCacheEntry\<close> returns the digest of that association (of its first
  output) and issues no other lookup. Otherwise, whatever the order in which the fallback
  lookups complete: when resolution goes on to the fallback keys and \<open>i\<close> is the first position
  of the fallback list whose lookup resolved with at least one recorded output, the result is
  the digest of that association; and every digest returned is the one of that first
  position.
\<close>

theorem getCacheEntry_hit_precedence:
  fixes sha256_hex :: "string \<Rightarrow> string" and proc :: process and rem :: remote
    and paths keys :: "string list" and cm primaryKey :: string and cross :: bool
  defines "h \<equiv> keyHash sha256_hex proc paths cm cross primaryKey"
    and "outs \<equiv> lookups sha256_hex proc rem paths cm cross keys"
  shows "(getActionResult rem h = Inr p \<and> outputFiles p \<noteq> [] \<longrightarrow>
            getCacheEntry sha256_hex proc rem completion paths primaryKey restoreKeys cm cross =
              ([GetActionResultCall h], Inr (hit_digest (Inr p))))
     \<and> (getActionResult rem h = Inl (ConnectError c raw m)
          \<and> mset completion = mset [0..<length keys]
          \<and> i < length keys \<and> is_hit (outs ! i) \<and> (\<forall>j < i. \<not> is_hit (outs ! j)) \<longrightarrow>
            snd (getCacheEntry sha256_hex proc rem completion paths primaryKey (Some keys)
                   cm cross) = Inr (hit_digest (outs ! i)))
     \<and> (\<not> is_hit (getActionResult rem h)
          \<and> mset completion = mset [0..<length keys]
          \<and> snd (getCacheEntry sha256_hex proc rem completion paths primaryKey (Some keys)
                   cm cross) = Inr (Some d) \<longrightarrow>
            (\<exists>i < length keys. is_hit (outs ! i) \<and> (\<forall>j < i. \<not> is_hit (outs ! j))
                \<and> hit_digest (outs ! i) = Some d))"
proof (intro conjI impI)
  assume "getActionResult rem h = Inr p \<and> outputFiles p \<noteq> []"
  then show "getCacheEntry sha256_hex proc rem completion paths primaryKey restoreKeys cm cross =
      ([GetActionResultCall h], Inr (hit_digest (Inr p)))"
    using primary_try_hit [of rem h p]
    by (simp add: getCacheEntry_def Let_def h_def keyHash_def)
next
  assume a: "getActionResult rem h = Inl (ConnectError c raw m)
    \<and> mset completion = mset [0..<length keys]
    \<and> i < length keys \<and> is_hit (outs ! i) \<and> (\<forall>j < i. \<not> is_hit (outs ! j))"
  then have len: "i < length outs"
    by (simp add: outs_def lookups_def)
  have split: "outs = take i outs @ outs ! i # drop (Suc i) outs"
    using len by (simp add: id_take_nth_drop)
  have before: "\<forall>p \<in> set (take i outs). \<not> is_hit p"
    using a len by (auto simp: in_set_conv_nth)
  have "scan_proms False [] outs = Inr (hit_digest (outs ! i))"
    using scan_proms_first_hit [OF before, of "outs ! i" False "[]" "drop (Suc i) outs"] a split
    by simp
  moreover have "keys \<noteq> []"
    using a by auto
  ultimately show "snd (getCacheEntry sha256_hex proc rem completion paths primaryKey (Some keys)
      cm cross) = Inr (hit_digest (outs ! i))"
    using a getCacheEntry_continues [of rem sha256_hex proc paths cm cross primaryKey c raw m
        completion keys]
    by (simp add: h_def outs_def)
next
  assume a: "\<not> is_hit (getActionResult rem h)
    \<and> mset completion = mset [0..<length keys]
    \<and> snd (getCacheEntry sha256_hex proc rem completion paths primaryKey (Some keys)
             cm cross) = Inr (Some d)"
  show "\<exists>i < length keys. is_hit (outs ! i) \<and> (\<forall>j < i. \<not> is_hit (outs ! j))
      \<and> hit_digest (outs ! i) = Some d"
  proof (cases "getActionResult rem h")
    case (Inr p)
    with a have "outputFiles p = []" by simp
    with Inr a show ?thesis
      by (simp add: getCacheEntry_def Let_def primary_try_def h_def keyHash_def new_Error_def)
  next
    case (Inl err)
    show ?thesis
    proof (cases err)
      case (Error n m')
      with Inl a show ?thesis
        by (simp add: getCacheEntry_def Let_def primary_try_def h_def keyHash_def)
    next
      case (ConnectError c' raw' m')
      with Inl a have scan: "keys \<noteq> []" "scan_proms False [] outs = Inr (Some d)"
        using getCacheEntry_continues [of rem sha256_hex proc paths cm cross primaryKey c' raw' m'
            completion keys]
        by (auto simp: h_def outs_def split: if_splits)
      have "\<exists>p \<in> set outs. is_hit p"
      proof (rule ccontr)
        assume "\<not> (\<exists>p \<in> set outs. is_hit p)"
        then have "\<forall>p \<in> set outs. \<not> is_hit p" by simp
        from scan_proms_no_hit [OF this, of False "[]"] scan(2) show False
          by (simp add: new_Error_def split: if_splits)
      qed
      then obtain ps q qs where split: "outs = ps @ q # qs" and q: "is_hit q"
        and ps: "\<forall>p \<in> set ps. \<not> is_hit p"
        by (metis split_list_first_prop)
      from scan_proms_first_hit [OF ps q, of False "[]" qs] scan(2) split
      have d: "hit_digest q = Some d" by simp
      have "length outs = length keys"
        by (simp add: outs_def lookups_def)
      then have "length ps < length keys"
        by (simp add: split)
      moreover have "outs ! length ps = q"
        by (simp add: split)
      moreover have "\<forall>j < length ps. \<not> is_hit (outs ! j)"
        using ps by (simp add: split nth_append)
      ultimately show ?thesis
        using q d by blast
    qed
  qed
qed

lemma concat_carries:
  "r \<in> set rs \<Longrightarrow> \<exists>pre post. concat (map f rs) = pre @ f r @ post"
  by (metis concat.simps(2) concat_append list.simps(9) map_append split_list)

text \<open>
  Claim C5. For every key-resolution run where the primary key misses and no fallback lookup
  yields a hit, whatever the order in which the lookups complete: if at least one fallback
  lookup ended in a genuine error, resolution fails with an error whose message is the
  concatenation of the messages collected in the scan, the message of every genuine error
  among them; if every fallback lookup was a clean not-found, the outcome is a miss, and the
  trace holds the lookups and no error.
\<close>

theorem getCacheEntry_no_hit:
  fixes sha256_hex :: "string \<Rightarrow> string" and proc :: process and rem :: remote
    and paths keys :: "string list" and cm primaryKey :: string and cross :: bool
  defines "h \<equiv> keyHash sha256_hex proc paths cm cross primaryKey"
    and "outs \<equiv> lookups sha256_hex proc rem paths cm cross keys"
  assumes "is_not_found (getActionResult rem h)"
    and "mset completion = mset [0..<length keys]"
    and "\<forall>r \<in> set outs. \<not> is_hit r"
  shows "((\<exists>r \<in> set outs. is_genuine_error r) \<longrightarrow>
            snd (getCacheEntry sha256_hex proc rem completion paths primaryKey (Some keys)
                   cm cross) = Inl (new_Error (concat (map fallback_message outs)))
            \<and> (\<forall>r \<in> set outs. is_genuine_error r \<longrightarrow>
                  (\<exists>pre post. concat (map fallback_message outs)
                                 = pre @ fallback_message r @ post)))
     \<and> ((\<forall>r \<in> set outs. is_not_found r) \<longrightarrow>
            getCacheEntry sha256_hex proc rem completion paths primaryKey (Some keys) cm cross =
              (GetActionResultCall h
                 # map (\<lambda>key. GetActionResultCall (keyHash sha256_hex proc paths cm cross key))
                       keys,
               Inr None))"
proof -
  from assms(3) obtain raw m where primary: "getActionResult rem h = Inl (ConnectError NotFound raw m)"
    by (cases "getActionResult rem h" rule: is_not_found.cases) simp_all
  note entry = getCacheEntry_continues [OF primary [unfolded h_def] assms(4)]
  note scan = scan_proms_no_hit [OF assms(5), of False "[]"]
  have genuine: "\<not> is_not_found r" if "is_genuine_error r" for r
    using that by (cases r rule: is_genuine_error.cases) simp_all
  show ?thesis
  proof (intro conjI impI)
    assume "\<exists>r \<in> set outs. is_genuine_error r"
    then have "\<exists>r \<in> set outs. \<not> is_not_found r" "keys \<noteq> []"
      using genuine by (auto simp: outs_def lookups_def)
    then show "snd (getCacheEntry sha256_hex proc rem completion paths primaryKey (Some keys)
        cm cross) = Inl (new_Error (concat (map fallback_message outs)))"
      using entry scan by (simp add: outs_def)
  next
    show "\<forall>r \<in> set outs. is_genuine_error r \<longrightarrow>
        (\<exists>pre post. concat (map fallback_message outs) = pre @ fallback_message r @ post)"
      using concat_carries by fast
  next
    assume "\<forall>r \<in> set outs. is_not_found r"
    then show "getCacheEntry sha256_hex proc rem completion paths primaryKey (Some keys) cm cross =
        (GetActionResultCall h
           # map (\<lambda>key. GetActionResultCall (keyHash sha256_hex proc paths cm cross key)) keys,
         Inr None)"
      using entry scan by (simp add: outs_def h_def)
  qed
qed

lemma two_keys_permutation: "mset [1, 0] = mset [0..<length [''linux-build-'', ''linux-'']]"
  by (simp add: upt_rec [of 0] upt_rec [of 1])

lemma lookups_two_keys:
  "lookups createHash_sha256_hex proc0 (store3 rP r1 r2) paths0 ''gzip'' False
     [''linux-build-'', ''linux-''] = [r1, r2]"
  by (simp add: lookups_def keyHash_fallback1 keyHash_fallback2 store3_lookup)

text \<open>
  The theorem of C3 on a store whose lookup of the primary key fails with a \<^verbatim>\<open>TypeError\<close>.
\<close>

theorem getCacheEntry_primary_failure_aborts_witness:
  "getActionResult (store3 fetch_failed not_found (stored blobA))
       (keyHash createHash_sha256_hex proc0 paths0 ''gzip'' False ''linux-build-abc'')
     = Inl (Error ''TypeError'' ''fetch failed'')
   \<and> \<not> is_ConnectError (Error ''TypeError'' ''fetch failed'')
   \<and> snd (getCacheEntry createHash_sha256_hex proc0
             (store3 fetch_failed not_found (stored blobA)) [1, 0]
             paths0 ''linux-build-abc'' (Some [''linux-build-'', ''linux-'']) ''gzip'' False)
        = Inl (Error ''TypeError'' ''fetch failed'')
   \<and> filter is_lookup
         (fst (getCacheEntry createHash_sha256_hex proc0
                 (store3 fetch_failed not_found (stored blobA)) [1, 0]
                 paths0 ''linux-build-abc'' (Some [''linux-build-'', ''linux-'']) ''gzip'' False))
        = [GetActionResultCall hashP]"
proof -
  have h: "getActionResult (store3 fetch_failed not_found (stored blobA))
       (keyHash createHash_sha256_hex proc0 paths0 ''gzip'' False ''linux-build-abc'')
     = Inl (Error ''TypeError'' ''fetch failed'')"
    "\<not> is_ConnectError (Error ''TypeError'' ''fetch failed'')"
    by (simp_all add: keyHash_primary store3_lookup fetch_failed_def)
  from getCacheEntry_primary_failure_aborts [OF h,
      of "[1, 0]" "Some [''linux-build-'', ''linux-'']"] h
  show ?thesis by (simp add: keyHash_primary)
qed

text \<open>
  Claim C3 as stated fails for a genuine transport error: the handler throws again only what
  is not a \<^verbatim>\<open>ConnectError\<close>. On a store whose lookup of the primary key fails with the code
  \<^verbatim>\<open>Unavailable\<close>, the failure is logged, both fallback lookups are issued and the digest
  found under the second fallback key is returned.
\<close>

theorem getCacheEntry_primary_unavailable_counterexample:
  "getActionResult (store3 unavailable not_found (stored blobA)) hashP =
     Inl (ConnectError Unavailable ''connection refused'' ''[unavailable] connection refused'')
   \<and> getCacheEntry createHash_sha256_hex proc0
         (store3 unavailable not_found (stored blobA)) [1, 0]
         paths0 ''linux-build-abc'' (Some [''linux-build-'', ''linux-'']) ''gzip'' False =
       ([GetActionResultCall hashP,
         core_error (''Failed to retrieve action result for primaryKeyHash: '' @ hashP
                      @ '' code error: Unavailable, reason: connection refused''),
         GetActionResultCall hash1, GetActionResultCall hash2],
        Inr (Some blobA))"
proof -
  have primary: "getActionResult (store3 unavailable not_found (stored blobA))
       (keyHash createHash_sha256_hex proc0 paths0 ''gzip'' False ''linux-build-abc'')
     = Inl (ConnectError Unavailable ''connection refused'' ''[unavailable] connection refused'')"
    by (simp add: keyHash_primary store3_lookup unavailable_def)
  from getCacheEntry_continues [OF primary two_keys_permutation] primary
  show ?thesis
    by (simp add: keyHash_primary keyHash_fallback1 keyHash_fallback2 lookups_def store3_lookup
        not_found_def stored_def)
qed

text \<open>
  The theorem of C4 on two stores, with the second fallback lookup completing first: one
  where the primary key hits, and one where the primary key and the first fallback key miss
  and the second fallback key hits.
\<close>

theorem getCacheEntry_hit_precedence_witness:
  "getCacheEntry createHash_sha256_hex proc0 (store3 (stored blobA) not_found (stored blobB))
       [1, 0] paths0 ''linux-build-abc'' (Some [''linux-build-'', ''linux-'']) ''gzip'' False =
     ([GetActionResultCall hashP], Inr (Some blobA))
   \<and> snd (getCacheEntry createHash_sha256_hex proc0 (store3 not_found not_found (stored blobB))
             [1, 0] paths0 ''linux-build-abc'' (Some [''linux-build-'', ''linux-'']) ''gzip''
             False) = Inr (Some blobB)
   \<and> (\<exists>i < length [''linux-build-'', ''linux-''].
         is_hit ([not_found, stored blobB] ! i)
         \<and> (\<forall>j < i. \<not> is_hit ([not_found, stored blobB] ! j))
         \<and> hit_digest ([not_found, stored blobB] ! i) = Some blobB)"
proof -
  let ?hit = "store3 (stored blobA) not_found (stored blobB)"
  let ?miss = "store3 not_found not_found (stored blobB)"
  let ?keys = "[''linux-build-'', ''linux-'']"
  have primary_hit:
    "getActionResult ?hit (keyHash createHash_sha256_hex proc0 paths0 ''gzip'' False
        ''linux-build-abc'')
       = Inr \<lparr> outputFiles = [\<lparr> path = ''/tmp/cache.tgz'', digest = Some blobA \<rparr>] \<rparr>
     \<and> outputFiles \<lparr> outputFiles = [\<lparr> path = ''/tmp/cache.tgz'', digest = Some blobA \<rparr>] \<rparr>
         \<noteq> []"
    by (simp add: keyHash_primary store3_lookup stored_def)
  have primary_miss:
    "getActionResult ?miss (keyHash createHash_sha256_hex proc0 paths0 ''gzip'' False
        ''linux-build-abc'')
       = Inl (ConnectError NotFound ''no action result'' ''[not_found] no action result'')"
    by (simp add: keyHash_primary store3_lookup not_found_def)
  have first_hit: "1 < length ?keys"
    "is_hit (lookups createHash_sha256_hex proc0 ?miss paths0 ''gzip'' False ?keys ! 1)"
    "\<forall>j < 1. \<not> is_hit (lookups createHash_sha256_hex proc0 ?miss paths0 ''gzip'' False ?keys ! j)"
    by (simp_all add: lookups_two_keys stored_def not_found_def)
  have not_hit: "\<not> is_hit (getActionResult ?miss
      (keyHash createHash_sha256_hex proc0 paths0 ''gzip'' False ''linux-build-abc''))"
    by (simp add: primary_miss)
  note inst = getCacheEntry_hit_precedence [where sha256_hex = createHash_sha256_hex
      and proc = proc0 and paths = paths0 and cm = "''gzip''" and cross = False
      and primaryKey = "''linux-build-abc''" and keys = "?keys" and completion = "[1, 0]"]
  have a: "getCacheEntry createHash_sha256_hex proc0 ?hit [1, 0] paths0 ''linux-build-abc''
      (Some ?keys) ''gzip'' False = ([GetActionResultCall hashP], Inr (Some blobA))"
    using inst [where rem = "?hit" and restoreKeys = "Some ?keys", THEN conjunct1, THEN mp,
        OF primary_hit]
    by (simp add: keyHash_primary)
  have b: "snd (getCacheEntry createHash_sha256_hex proc0 ?miss [1, 0] paths0 ''linux-build-abc''
      (Some ?keys) ''gzip'' False) = Inr (Some blobB)"
    using inst [where rem = "?miss" and i = 1, THEN conjunct2, THEN conjunct1]
      primary_miss two_keys_permutation first_hit
    by (simp add: lookups_two_keys stored_def)
  have c: "\<exists>i < length ?keys.
      is_hit ([not_found, stored blobB] ! i)
      \<and> (\<forall>j < i. \<not> is_hit ([not_found, stored blobB] ! j))
      \<and> hit_digest ([not_found, stored blobB] ! i) = Some blobB"
    using inst [where rem = "?miss" and d = blobB, THEN conjunct2, THEN conjunct2]
      not_hit two_keys_permutation b
    by (simp add: lookups_two_keys)
  from a b c show ?thesis by (intro conjI)
qed

text \<open>
  The theorem of C5 on two stores where the primary key misses: one whose first fallback
  lookup is refused, and one where every lookup is a clean not-found.
\<close>

theorem getCacheEntry_no_hit_witness:
  "snd (getCacheEntry createHash_sha256_hex proc0 (store3 not_found permission_denied not_found)
          [1, 0] paths0 ''linux-build-abc'' (Some [''linux-build-'', ''linux-'']) ''gzip'' False)
     = Inl (Error ''Error'' ''error code: PermissionDenied, message: bad key'')
   \<and> getCacheEntry createHash_sha256_hex proc0 (store3 not_found not_found not_found)
          [1, 0] paths0 ''linux-build-abc'' (Some [''linux-build-'', ''linux-'']) ''gzip'' False
     = ([GetActionResultCall hashP, GetActionResultCall hash1, GetActionResultCall hash2],
        Inr None)"
proof -
  let ?denied = "store3 not_found permission_denied not_found"
  let ?miss = "store3 not_found not_found not_found"
  let ?keys = "[''linux-build-'', ''linux-'']"
  have primary: "is_not_found (getActionResult (store3 not_found r1 r2)
      (keyHash createHash_sha256_hex proc0 paths0 ''gzip'' False ''linux-build-abc''))" for r1 r2
    by (simp add: keyHash_primary store3_lookup not_found_def)
  have no_hit:
    "\<forall>r \<in> set (lookups createHash_sha256_hex proc0 ?denied paths0 ''gzip'' False ?keys). \<not> is_hit r"
    "\<forall>r \<in> set (lookups createHash_sha256_hex proc0 ?miss paths0 ''gzip'' False ?keys). \<not> is_hit r"
    by (simp_all add: lookups_two_keys not_found_def permission_denied_def)
  have genuine:
    "\<exists>r \<in> set (lookups createHash_sha256_hex proc0 ?denied paths0 ''gzip'' False ?keys).
       is_genuine_error r"
    by (simp add: lookups_two_keys not_found_def permission_denied_def)
  have clean:
    "\<forall>r \<in> set (lookups createHash_sha256_hex proc0 ?miss paths0 ''gzip'' False ?keys).
       is_not_found r"
    by (simp add: lookups_two_keys not_found_def)
  have a: "snd (getCacheEntry createHash_sha256_hex proc0 ?denied [1, 0] paths0 ''linux-build-abc''
      (Some ?keys) ''gzip'' False)
        = Inl (Error ''Error'' ''error code: PermissionDenied, message: bad key'')"
    using getCacheEntry_no_hit [OF primary two_keys_permutation no_hit(1), THEN conjunct1,
        THEN mp, OF genuine, THEN conjunct1]
    by (simp add: lookups_two_keys not_found_def permission_denied_def new_Error_def)
  have b: "getCacheEntry createHash_sha256_hex proc0 ?miss [1, 0] paths0 ''linux-build-abc''
      (Some ?keys) ''gzip'' False
        = ([GetActionResultCall hashP, GetActionResultCall hash1, GetActionResultCall hash2],
           Inr None)"
    using getCacheEntry_no_hit [OF primary two_keys_permutation no_hit(2), THEN conjunct2,
        THEN mp, OF clean]
    by (simp add: keyHash_primary keyHash_fallback1 keyHash_fallback2)
  from a b show ?thesis by (intro conjI)
qed

subsection \<open>Save and restore\<close>

text \<open>
  Claim C6. For every upload (the two NativeLink variables are set and the write call
  returns) where the committed size that the remote store reports is strictly less than the
  declared file size, \<^verbatim>\<open>saveCache\<close> throws the error of the incomplete transfer, and the call
  that registers the association of key and digest is not made: the write is the only call
  of the trace.
\<close>

theorem saveCache_short_commit:
  fixes sha256_hex :: "string \<Rightarrow> string" and proc :: process and paths :: "string list"
    and compressionMethod archivePath uuid :: string and archiveFileSize :: int
    and readStream :: "string \<Rightarrow> int \<Rightarrow> 8 word list list"
    and enableCrossOsArchive :: bool and uploadChunkSize :: "int option"
  defines "frames \<equiv>
    asyncIterator
      (new_FileAsyncIterable archivePath archiveFileSize
         (getCacheVersion sha256_hex proc paths (Some compressionMethod) enableCrossOsArchive None)
         uploadChunkSize)
      uuid readStream"
  assumes "truthy (remoteCacheUrl proc)" and "truthy (apiKey proc)"
    and "byteStream_write rem frames = Inr writeResult"
    and "committedSize writeResult < archiveFileSize"
  shows "saveCache sha256_hex proc rem uuid readStream key paths archivePath compressionMethod
           enableCrossOsArchive archiveFileSize uploadChunkSize =
           ([WriteCall frames],
            Inl (new_Error ''The upload process failed to send the entire file content''))
     \<and> filter is_registration
           (fst (saveCache sha256_hex proc rem uuid readStream key paths archivePath
                   compressionMethod enableCrossOsArchive archiveFileSize uploadChunkSize)) = []"
  using assms(2-) by (simp add: saveCache_def Let_def frames_def)

text \<open>
  The theorem of C6 for an archive of ten bytes of which the store commits six.
\<close>

theorem saveCache_short_commit_witness:
  "truthy (remoteCacheUrl proc0) \<and> truthy (apiKey proc0)
   \<and> committedSize \<lparr> committedSize = 6 \<rparr> < 10
   \<and> snd (saveCache createHash_sha256_hex proc0 short_store ''u'' fours ''linux-build-abc'' paths0
             ''/tmp/7f3a/cache.tgz'' ''gzip'' False 10 (Some 4))
        = Inl (Error ''Error'' ''The upload process failed to send the entire file content'')
   \<and> filter is_registration
         (fst (saveCache createHash_sha256_hex proc0 short_store ''u'' fours ''linux-build-abc''
                 paths0 ''/tmp/7f3a/cache.tgz'' ''gzip'' False 10 (Some 4))) = []"
proof -
  have h: "truthy (remoteCacheUrl proc0)" "truthy (apiKey proc0)"
    by (simp_all add: remoteCacheUrl_def apiKey_def proc0_def)
  have w: "byteStream_write short_store frames = Inr \<lparr> committedSize = 6 \<rparr>" for frames
    by (simp add: short_store_def)
  have c: "committedSize \<lparr> committedSize = 6 \<rparr> < 10"
    by simp
  from saveCache_short_commit [where sha256_hex = createHash_sha256_hex and proc = proc0
      and rem = short_store and uuid = "''u''" and readStream = fours
      and key = "''linux-build-abc''" and paths = paths0
      and archivePath = "''/tmp/7f3a/cache.tgz''" and compressionMethod = "''gzip''"
      and enableCrossOsArchive = False and archiveFileSize = 10 and uploadChunkSize = "Some 4"
      and writeResult = "\<lparr> committedSize = 6 \<rparr>", OF h w c] h c
  show ?thesis by (simp add: new_Error_def)
qed

lemma checkPaths_name: "checkPaths paths = Inl e \<Longrightarrow> error_name e = ''ValidationError''"
  by (auto simp: checkPaths_def ValidationError_def split: if_splits)

lemma checkKey_name: "checkKey key = Inl e \<Longrightarrow> error_name e = ''ValidationError''"
  by (auto simp: checkKey_def ValidationError_def split: if_splits)

lemma checkKeys_name: "checkKeys keys = Inl e \<Longrightarrow> error_name e = ''ValidationError''"
  by (induction keys) (auto simp: checkKey_name split: sum.splits)

lemma restoreCache_guarded_name:
  "snd (restoreCache_guarded sha256_hex proc rem ext completion paths primaryKey keys lookupOnly
          cross cm) = Inl e \<Longrightarrow> error_name e = ''ValidationError''"
  by (auto simp: restoreCache_guarded_def ValidationError_name_def
      split: prod.splits sum.splits if_splits)

lemma saveCache_guarded_name:
  "snd (saveCache_guarded sha256_hex proc rem ext paths key cross chunk cm cachePaths folder
          archivePath) = Inl e \<Longrightarrow> error_name e = ''ValidationError''"
  by (auto simp: saveCache_guarded_def ValidationError_name_def
      split: prod.splits sum.splits if_splits)

lemma restoreCache_escapes:
  "snd (CasCacheService_restoreCache sha256_hex proc rem ext completion paths primaryKey
          restoreKeys lookupOnly cross) = Inl e \<Longrightarrow>
   error_name e = ''ValidationError'' \<or> getCompressionMethod ext = Inl e"
  by (auto simp: CasCacheService_restoreCache_def Let_def ValidationError_def
      dest: checkPaths_name checkKeys_name checkKey_name restoreCache_guarded_name
      split: sum.splits if_splits)

lemma saveCache_escapes:
  "snd (CasCacheService_saveCache sha256_hex proc rem ext paths key cross chunk) = Inl e \<Longrightarrow>
   error_name e = ''ValidationError'' \<or> getCompressionMethod ext = Inl e
     \<or> resolvePaths ext paths = Inl e \<or> createTempDirectory ext = Inl e"
  by (auto simp: CasCacheService_saveCache_def Let_def ValidationError_def
      dest: checkPaths_name checkKey_name saveCache_guarded_name
      split: sum.splits if_splits option.splits)

text \<open>
  Claim C8, as amended. For every save and restore invocation, a failure that reaches the
  caller has the name \<^verbatim>\<open>ValidationError\<close> or was raised before the \<^verbatim>\<open>try\<close> block: by
  \<^verbatim>\<open>getCompressionMethod\<close>, and in save also by \<^verbatim>\<open>resolvePaths\<close> or \<^verbatim>\<open>createTempDirectory\<close>.
  A failure raised inside the \<^verbatim>\<open>try\<close> block is thrown again when its name is
  \<^verbatim>\<open>ValidationError\<close>; any other is caught and logged (as a warning; in save as an info
  message when its name is \<^verbatim>\<open>ReserveCacheError\<close>), and the operation returns the no-op
  result: \<^verbatim>\<open>restoreCache\<close> returns \<^verbatim>\<open>undefined\<close> and \<^verbatim>\<open>saveCache\<close> returns \<open>-1\<close>.
\<close>

theorem guarded_failures_degrade:
  "(snd (CasCacheService_restoreCache sha256_hex proc rem ext completion paths primaryKey
           restoreKeys lookupOnly cross) = Inl e \<longrightarrow>
      error_name e = ''ValidationError'' \<or> getCompressionMethod ext = Inl e)
   \<and> (snd (CasCacheService_saveCache sha256_hex proc rem ext paths key cross chunk) = Inl e \<longrightarrow>
      error_name e = ''ValidationError'' \<or> getCompressionMethod ext = Inl e
        \<or> resolvePaths ext paths = Inl e \<or> createTempDirectory ext = Inl e)
   \<and> (restoreCache_try sha256_hex proc rem ext completion paths primaryKey keys lookupOnly
         cross cm = (archivePath, ev, Inl e) \<longrightarrow>
       restoreCache_guarded sha256_hex proc rem ext completion paths primaryKey keys lookupOnly
         cross cm =
         (if error_name e = ''ValidationError'' then (ev @ [UnlinkFile archivePath], Inl e)
          else (ev @ [core_warning (''Failed to restore: '' @ error_message e),
                      UnlinkFile archivePath], Inr None)))
   \<and> (saveCache_try sha256_hex proc rem ext paths key cross chunk cm cachePaths folder
         archivePath = (ev, Inl e) \<longrightarrow>
       saveCache_guarded sha256_hex proc rem ext paths key cross chunk cm cachePaths folder
         archivePath =
         (if error_name e = ''ValidationError'' then (ev @ [UnlinkFile archivePath], Inl e)
          else if error_name e = ''ReserveCacheError''
          then (ev @ [core_info (''Failed to save: '' @ error_message e),
                      UnlinkFile archivePath], Inr (- 1))
          else (ev @ [core_warning (''Failed to save: '' @ error_message e),
                      UnlinkFile archivePath], Inr (- 1))))"
  using restoreCache_escapes [of sha256_hex proc rem ext completion paths primaryKey restoreKeys
      lookupOnly cross e]
    saveCache_escapes [of sha256_hex proc rem ext paths key cross chunk e]
  by (simp add: restoreCache_guarded_def saveCache_guarded_def ValidationError_name_def
      ReserveCacheError_name_def)

text \<open>
  Claim C9. Save with a key that contains a comma or is longer than 512 characters throws a
  \<^verbatim>\<open>ValidationError\<close>, and restore with more than 10 keys in total (primary plus fallbacks)
  throws a \<^verbatim>\<open>ValidationError\<close>, in every such invocation with an empty trace: before any call
  to the remote store.
\<close>

theorem invalid_keys_rejected:
  "((CHR '','' \<in> set key \<or> 512 < length key) \<longrightarrow>
      (\<exists>m. CasCacheService_saveCache sha256_hex proc rem ext paths key cross chunk =
             ([], Inl (ValidationError m))))
   \<and> (10 < length (primaryKey # (case restoreKeys of None \<Rightarrow> [] | Some ks \<Rightarrow> ks)) \<longrightarrow>
      (\<exists>m. CasCacheService_restoreCache sha256_hex proc rem ext completion paths primaryKey
              restoreKeys lookupOnly cross = ([], Inl (ValidationError m))))"
proof (intro conjI impI)
  assume bad: "CHR '','' \<in> set key \<or> 512 < length key"
  then have "\<exists>m. checkKey key = Inl (ValidationError m)"
    by (auto simp: checkKey_def regex_test_def list_all_iff)
  then show "\<exists>m. CasCacheService_saveCache sha256_hex proc rem ext paths key cross chunk =
      ([], Inl (ValidationError m))"
    by (auto simp: CasCacheService_saveCache_def checkPaths_def)
next
  assume "10 < length (primaryKey # (case restoreKeys of None \<Rightarrow> [] | Some ks \<Rightarrow> ks))"
  then show "\<exists>m. CasCacheService_restoreCache sha256_hex proc rem ext completion paths primaryKey
      restoreKeys lookupOnly cross = ([], Inl (ValidationError m))"
    by (auto simp: CasCacheService_restoreCache_def checkPaths_def Let_def)
qed


lemma primary_fingerprint:
  "getCacheVersion createHash_sha256_hex proc0 paths0 (Some ''gzip'') False
     (Some ''linux-build-abc'') = hashP"
  using keyHash_primary by (simp add: keyHash_def)

lemma getCacheEntry_primary_stored:
  "getActionResult rem hashP = stored blobA \<Longrightarrow>
   getCacheEntry createHash_sha256_hex proc0 rem completion paths0 ''linux-build-abc''
     restoreKeys ''gzip'' False = ([GetActionResultCall hashP], Inr (Some blobA))"
  by (simp add: getCacheEntry_def Let_def primary_fingerprint primary_try_def stored_def)

lemma key_ok: "checkKey ''linux-build-abc'' = Inr ()"
  by (simp add: checkKey_def regex_test_def)

lemma paths0_ok: "checkPaths paths0 = Inr ()"
  by (simp add: checkPaths_def paths0_def)

lemma restoreCache_checks_pass:
  "getCompressionMethod ext = Inr cm \<Longrightarrow>
   CasCacheService_restoreCache createHash_sha256_hex proc0 rem ext completion paths0
     ''linux-build-abc'' None lookupOnly cross =
   restoreCache_guarded createHash_sha256_hex proc0 rem ext completion paths0
     ''linux-build-abc'' [] lookupOnly cross cm"
  by (simp add: CasCacheService_restoreCache_def paths0_ok key_ok Let_def)

lemma restoreCache_result:
  "snd (CasCacheService_restoreCache sha256_hex proc rem ext completion paths primaryKey
          restoreKeys lookupOnly cross) = Inr (Some s) \<Longrightarrow>
   \<exists>cm cacheEntry.
     getCompressionMethod ext = Inr cm
     \<and> snd (getCacheEntry sha256_hex proc rem completion paths primaryKey
              (Some (case restoreKeys of None \<Rightarrow> [] | Some ks \<Rightarrow> ks)) cm cross)
         = Inr (Some cacheEntry)
     \<and> s = hash cacheEntry"
  by (auto simp: CasCacheService_restoreCache_def restoreCache_guarded_def restoreCache_try_def
      Let_def split: sum.splits if_splits prod.splits option.splits)

text \<open>
  Claim C7 does not hold of the code: \<^verbatim>\<open>restoreCache\<close> returns \<^verbatim>\<open>cacheEntry.hash\<close>, the hash of
  the digest found, on both paths. With the archive stored under the primary key
  \<open>linux-build-abc\<close>, the lookup-only restore and the restore that downloads and extracts both
  return the hash of the stored digest, which is not the key.
\<close>

theorem restoreCache_returns_digest_hash:
  "CasCacheService_restoreCache createHash_sha256_hex proc0
       (store3 (stored blobA) not_found not_found) utils0 []
       paths0 ''linux-build-abc'' None True False =
     ([GetActionResultCall hashP, UnlinkFile ''''],
      Inr (Some ''470e252814dbffc9524891b17cf4e5749b26c1b5026e63dd3f00972db2393117''))
   \<and> CasCacheService_restoreCache createHash_sha256_hex proc0
       (store3 (stored blobA) not_found not_found) utils0 []
       paths0 ''linux-build-abc'' None False False =
     ([GetActionResultCall hashP,
       ReadCall ''blobs/470e252814dbffc9524891b17cf4e5749b26c1b5026e63dd3f00972db2393117/10'',
       FileWritten ''/tmp/7f3a/cache.tgz'' [1, 2, 3, 4, 5, 6, 7, 8, 9, 10],
       UnlinkFile ''/tmp/7f3a/cache.tgz''],
      Inr (Some ''470e252814dbffc9524891b17cf4e5749b26c1b5026e63dd3f00972db2393117''))
   \<and> ''470e252814dbffc9524891b17cf4e5749b26c1b5026e63dd3f00972db2393117'' \<noteq> ''linux-build-abc''"
proof -
  have entry: "getCacheEntry createHash_sha256_hex proc0 (store3 (stored blobA) not_found not_found)
      [] paths0 ''linux-build-abc'' (Some []) ''gzip'' False =
      ([GetActionResultCall hashP], Inr (Some blobA))"
    by (rule getCacheEntry_primary_stored) (simp add: store3_lookup)
  have download: "downloadCache (store3 (stored blobA) not_found not_found) (writeToFile utils0)
      blobA ''/tmp/7f3a/cache.tgz'' =
      ([ReadCall ''blobs/470e252814dbffc9524891b17cf4e5749b26c1b5026e63dd3f00972db2393117/10'',
        FileWritten ''/tmp/7f3a/cache.tgz'' [1, 2, 3, 4, 5, 6, 7, 8, 9, 10]], Inr ())"
    by (simp add: downloadCache_def blobA_def show_int_10 store3_def utils0_def)
  have lookup_only: "restoreCache_try createHash_sha256_hex proc0
      (store3 (stored blobA) not_found not_found) utils0 [] paths0 ''linux-build-abc'' [] True
      False ''gzip'' =
      ([], [GetActionResultCall hashP],
       Inr (Some ''470e252814dbffc9524891b17cf4e5749b26c1b5026e63dd3f00972db2393117''))"
    by (simp add: restoreCache_try_def entry) (simp add: blobA_def)
  have restored: "restoreCache_try createHash_sha256_hex proc0
      (store3 (stored blobA) not_found not_found) utils0 [] paths0 ''linux-build-abc'' [] False
      False ''gzip'' =
      (''/tmp/7f3a/cache.tgz'',
       [GetActionResultCall hashP,
        ReadCall ''blobs/470e252814dbffc9524891b17cf4e5749b26c1b5026e63dd3f00972db2393117/10'',
        FileWritten ''/tmp/7f3a/cache.tgz'' [1, 2, 3, 4, 5, 6, 7, 8, 9, 10]],
       Inr (Some ''470e252814dbffc9524891b17cf4e5749b26c1b5026e63dd3f00972db2393117''))"
  proof -
    have "path_join utils0 ''/tmp/7f3a'' (getCacheFileName utils0 ''gzip'') = ''/tmp/7f3a/cache.tgz''"
      "createTempDirectory utils0 = Inr ''/tmp/7f3a''" "\<not> isDebug utils0"
      "getArchiveFileSizeInBytes utils0 ''/tmp/7f3a/cache.tgz'' = Inr 10"
      "extractTar utils0 ''/tmp/7f3a/cache.tgz'' ''gzip'' = Inr ()"
      by (simp_all add: utils0_def)
    then show ?thesis
      using download by (simp add: restoreCache_try_def entry Let_def) (simp add: blobA_def)
  qed
  have cm: "getCompressionMethod utils0 = Inr ''gzip''"
    by (simp add: utils0_def)
  show ?thesis
    by (simp add: restoreCache_checks_pass [OF cm] restoreCache_guarded_def lookup_only restored)
qed


lemma saveCache_checks_pass:
  "getCompressionMethod ext = Inr cm \<Longrightarrow> resolvePaths ext paths0 = Inr paths0 \<Longrightarrow>
   CasCacheService_saveCache createHash_sha256_hex proc0 rem ext paths0 ''linux-build-abc''
     cross (Some 4) =
   (case createTempDirectory ext of
      Inl e \<Rightarrow> ([], Inl e)
    | Inr archiveFolder \<Rightarrow>
        saveCache_guarded createHash_sha256_hex proc0 rem ext paths0 ''linux-build-abc'' cross
          (Some 4) cm paths0 archiveFolder
          (path_join ext archiveFolder (getCacheFileName ext cm)))"
  by (simp add: CasCacheService_saveCache_def paths0_ok key_ok MAX_GRPC_REQUEST_SIZE_def)
    (simp add: paths0_def)

text \<open>
  Claim C8 as stated fails for a failure raised before the \<^verbatim>\<open>try\<close> block: when the temporary
  directory cannot be created, \<^verbatim>\<open>saveCache\<close> throws that failure, whose name is not
  \<^verbatim>\<open>ValidationError\<close>, instead of returning \<open>-1\<close>.
\<close>

theorem saveCache_setup_failure_counterexample:
  "CasCacheService_saveCache createHash_sha256_hex proc0 (store3 not_found not_found not_found)
       utils_no_tmp paths0 ''linux-build-abc'' False (Some 4) =
     ([], Inl (Error ''Error'' ''EACCES: permission denied, mkdir''))
   \<and> error_name (Error ''Error'' ''EACCES: permission denied, mkdir'') \<noteq> ''ValidationError''"
proof -
  have "getCompressionMethod utils_no_tmp = Inr ''gzip''"
    "resolvePaths utils_no_tmp paths0 = Inr paths0"
    "createTempDirectory utils_no_tmp = Inl (Error ''Error'' ''EACCES: permission denied, mkdir'')"
    by (simp_all add: utils_no_tmp_def utils0_def)
  then show ?thesis
    by (simp add: saveCache_checks_pass)
qed

text \<open>
  The theorem of C8 on five invocations: a restore without paths, a save whose temporary
  directory cannot be created, a restore whose download fails, a save whose upload is
  committed short, and a save whose archiver throws a failure named \<^verbatim>\<open>ValidationError\<close>.
\<close>

theorem guarded_failures_degrade_witness:
  "snd (CasCacheService_restoreCache createHash_sha256_hex proc0 unreadable_store utils0 []
          [] ''linux-build-abc'' None False False)
     = Inl (Error ''ValidationError''
              ''Path Validation Error: At least one directory or file path is required'')
   \<and> snd (CasCacheService_saveCache createHash_sha256_hex proc0 short_store utils_no_tmp
            paths0 ''linux-build-abc'' False (Some 4))
     = Inl (Error ''Error'' ''EACCES: permission denied, mkdir'')
   \<and> createTempDirectory utils_no_tmp = Inl (Error ''Error'' ''EACCES: permission denied, mkdir'')
   \<and> restoreCache_guarded createHash_sha256_hex proc0 unreadable_store utils0 [] paths0
         ''linux-build-abc'' [] False False ''gzip''
     = ([GetActionResultCall hashP,
         ReadCall ''blobs/470e252814dbffc9524891b17cf4e5749b26c1b5026e63dd3f00972db2393117/10'',
         core_error ''Failed to download blob code error: Unavailable, reason: connection refused'',
         core_warning ''Failed to restore: [unavailable] connection refused'',
         UnlinkFile ''/tmp/7f3a/cache.tgz''],
        Inr None)
   \<and> snd (saveCache_guarded createHash_sha256_hex proc0 short_store utils0 paths0
            ''linux-build-abc'' False (Some 4) ''gzip'' paths0 ''/tmp/7f3a''
            ''/tmp/7f3a/cache.tgz'') = Inr (- 1)
   \<and> core_warning ''Failed to save: The upload process failed to send the entire file content''
       \<in> set (fst (saveCache_guarded createHash_sha256_hex proc0 short_store utils0 paths0
                      ''linux-build-abc'' False (Some 4) ''gzip'' paths0 ''/tmp/7f3a''
                      ''/tmp/7f3a/cache.tgz''))
   \<and> saveCache_guarded createHash_sha256_hex proc0 short_store utils_tar_rejects paths0
         ''linux-build-abc'' False (Some 4) ''gzip'' paths0 ''/tmp/7f3a'' ''/tmp/7f3a/cache.tgz''
     = ([UnlinkFile ''/tmp/7f3a/cache.tgz''], Inl (Error ''ValidationError'' ''bad archive''))"
proof -
  let ?rn = "''blobs/470e252814dbffc9524891b17cf4e5749b26c1b5026e63dd3f00972db2393117/10''"
  let ?down = "ConnectError Unavailable ''connection refused'' ''[unavailable] connection refused''"
  let ?short = "Error ''Error'' ''The upload process failed to send the entire file content''"
  let ?frames = "asyncIterator
      (new_FileAsyncIterable ''/tmp/7f3a/cache.tgz'' 10
         (getCacheVersion createHash_sha256_hex proc0 paths0 (Some ''gzip'') False None) (Some 4))
      ''u'' fours"
  note thm8 = guarded_failures_degrade [where sha256_hex = createHash_sha256_hex and proc = proc0
      and completion = "[]" and primaryKey = "''linux-build-abc''" and key = "''linux-build-abc''"
      and lookupOnly = False and cross = False and chunk = "Some 4" and cm = "''gzip''"
      and keys = "[]" and restoreKeys = None and cachePaths = paths0 and folder = "''/tmp/7f3a''"
      and archivePath = "''/tmp/7f3a/cache.tgz''"]
  have a0: "snd (CasCacheService_restoreCache createHash_sha256_hex proc0 unreadable_store utils0 []
      [] ''linux-build-abc'' None False False)
      = Inl (Error ''ValidationError''
               ''Path Validation Error: At least one directory or file path is required'')"
    by (simp add: CasCacheService_restoreCache_def checkPaths_def ValidationError_def)
  have b0: "snd (CasCacheService_saveCache createHash_sha256_hex proc0 short_store utils_no_tmp
      paths0 ''linux-build-abc'' False (Some 4))
      = Inl (Error ''Error'' ''EACCES: permission denied, mkdir'')"
  proof -
    have "getCompressionMethod utils_no_tmp = Inr ''gzip''"
      "resolvePaths utils_no_tmp paths0 = Inr paths0"
      "createTempDirectory utils_no_tmp
         = Inl (Error ''Error'' ''EACCES: permission denied, mkdir'')"
      by (simp_all add: utils_no_tmp_def utils0_def)
    then show ?thesis by (simp add: saveCache_checks_pass)
  qed
  have b1: "createTempDirectory utils_no_tmp
      = Inl (Error ''Error'' ''EACCES: permission denied, mkdir'')"
    using thm8 [where rem = short_store and ext = utils_no_tmp and paths = paths0
        and e = "Error ''Error'' ''EACCES: permission denied, mkdir''", THEN conjunct2,
        THEN conjunct1] b0
    by (simp add: utils_no_tmp_def utils0_def)
  have a1: "error_name (Error ''ValidationError''
      ''Path Validation Error: At least one directory or file path is required'')
        = ''ValidationError''"
    using thm8 [where rem = unreadable_store and ext = utils0 and paths = "[]"
        and e = "Error ''ValidationError''
          ''Path Validation Error: At least one directory or file path is required''",
        THEN conjunct1] a0
    by simp
  have entry: "getCacheEntry createHash_sha256_hex proc0 unreadable_store [] paths0
      ''linux-build-abc'' (Some []) ''gzip'' False = ([GetActionResultCall hashP], Inr (Some blobA))"
    by (rule getCacheEntry_primary_stored) (simp add: unreadable_store_def store3_def hashP_def)
  have download: "downloadCache unreadable_store (writeToFile utils0) blobA ''/tmp/7f3a/cache.tgz''
      = ([ReadCall ?rn,
          core_error ''Failed to download blob code error: Unavailable, reason: connection refused''],
         Inl ?down)"
    by (simp add: downloadCache_def blobA_def show_int_10 unreadable_store_def)
  have try_restore: "restoreCache_try createHash_sha256_hex proc0 unreadable_store utils0 []
      paths0 ''linux-build-abc'' [] False False ''gzip'' =
      (''/tmp/7f3a/cache.tgz'',
       [GetActionResultCall hashP, ReadCall ?rn,
        core_error ''Failed to download blob code error: Unavailable, reason: connection refused''],
       Inl ?down)"
  proof -
    have "path_join utils0 ''/tmp/7f3a'' (getCacheFileName utils0 ''gzip'') = ''/tmp/7f3a/cache.tgz''"
      "createTempDirectory utils0 = Inr ''/tmp/7f3a''"
      by (simp_all add: utils0_def)
    then show ?thesis
      using download by (simp add: restoreCache_try_def entry Let_def)
  qed
  have c: "restoreCache_guarded createHash_sha256_hex proc0 unreadable_store utils0 [] paths0
      ''linux-build-abc'' [] False False ''gzip''
      = ([GetActionResultCall hashP, ReadCall ?rn,
          core_error ''Failed to download blob code error: Unavailable, reason: connection refused'',
          core_warning ''Failed to restore: [unavailable] connection refused'',
          UnlinkFile ''/tmp/7f3a/cache.tgz''],
         Inr None)"
    using thm8 [where rem = unreadable_store and ext = utils0 and paths = paths0
        and e = ?down, THEN conjunct2, THEN conjunct2, THEN conjunct1, THEN mp, OF try_restore]
    by simp
  have upload: "saveCache createHash_sha256_hex proc0 short_store ''u'' fours ''linux-build-abc''
      paths0 ''/tmp/7f3a/cache.tgz'' ''gzip'' False 10 (Some 4) = ([WriteCall ?frames], Inl ?short)"
    by (simp add: saveCache_def Let_def remoteCacheUrl_def apiKey_def proc0_def short_store_def
        new_Error_def)
  have try_save: "saveCache_try createHash_sha256_hex proc0 short_store utils0 paths0
      ''linux-build-abc'' False (Some 4) ''gzip'' paths0 ''/tmp/7f3a'' ''/tmp/7f3a/cache.tgz''
      = ([WriteCall ?frames], Inl ?short)"
  proof -
    have "createTar utils0 ''/tmp/7f3a'' paths0 ''gzip'' = Inr ()" "\<not> isDebug utils0"
      "getArchiveFileSizeInBytes utils0 ''/tmp/7f3a/cache.tgz'' = Inr 10" "\<not> isGhes utils0"
      "randomUUID utils0 = ''u''" "createReadStream utils0 = fours"
      by (simp_all add: utils0_def)
    then show ?thesis
      using upload by (simp add: saveCache_try_def fileSizeLimit_def)
  qed
  have d: "saveCache_guarded createHash_sha256_hex proc0 short_store utils0 paths0
      ''linux-build-abc'' False (Some 4) ''gzip'' paths0 ''/tmp/7f3a'' ''/tmp/7f3a/cache.tgz''
      = ([WriteCall ?frames,
          core_warning ''Failed to save: The upload process failed to send the entire file content'',
          UnlinkFile ''/tmp/7f3a/cache.tgz''],
         Inr (- 1))"
    using thm8 [where rem = short_store and ext = utils0 and paths = paths0
        and e = ?short, THEN conjunct2, THEN conjunct2, THEN conjunct2, THEN mp, OF try_save]
    by simp
  have try_rejects: "saveCache_try createHash_sha256_hex proc0 short_store utils_tar_rejects paths0
      ''linux-build-abc'' False (Some 4) ''gzip'' paths0 ''/tmp/7f3a'' ''/tmp/7f3a/cache.tgz''
      = ([], Inl (Error ''ValidationError'' ''bad archive''))"
    by (simp add: saveCache_try_def utils_tar_rejects_def)
  have e: "saveCache_guarded createHash_sha256_hex proc0 short_store utils_tar_rejects paths0
      ''linux-build-abc'' False (Some 4) ''gzip'' paths0 ''/tmp/7f3a'' ''/tmp/7f3a/cache.tgz''
      = ([UnlinkFile ''/tmp/7f3a/cache.tgz''], Inl (Error ''ValidationError'' ''bad archive''))"
    using thm8 [where rem = short_store and ext = utils_tar_rejects and paths = paths0
        and e = "Error ''ValidationError'' ''bad archive''", THEN conjunct2, THEN conjunct2,
        THEN conjunct2, THEN mp, OF try_rejects]
    by simp
  show ?thesis
    using a0 a1 b0 b1 c e by (simp add: d)
qed

text \<open>
  The theorem of C9 for a key with a comma, a key of 513 characters and a restore with eleven
  keys.
\<close>

theorem invalid_keys_rejected_witness:
  "(CHR '','' \<in> set ''linux,build'' \<or> 512 < length ''linux,build'')
   \<and> (\<exists>m. CasCacheService_saveCache createHash_sha256_hex proc0 short_store utils0 paths0
             ''linux,build'' False None = ([], Inl (ValidationError m)))
   \<and> CasCacheService_saveCache createHash_sha256_hex proc0 short_store utils0 paths0
         ''linux,build'' False None =
       ([], Inl (Error ''ValidationError''
                   ''Key Validation Error: linux,build cannot contain commas.''))
   \<and> 512 < length (replicate 513 CHR ''k'')
   \<and> (\<exists>m. CasCacheService_saveCache createHash_sha256_hex proc0 short_store utils0 paths0
             (replicate 513 CHR ''k'') False None = ([], Inl (ValidationError m)))
   \<and> 10 < length (''linux-build-abc'' # replicate 10 ''linux-'')
   \<and> (\<exists>m. CasCacheService_restoreCache createHash_sha256_hex proc0 short_store utils0 []
             paths0 ''linux-build-abc'' (Some (replicate 10 ''linux-'')) False False =
             ([], Inl (ValidationError m)))
   \<and> CasCacheService_restoreCache createHash_sha256_hex proc0 short_store utils0 []
         paths0 ''linux-build-abc'' (Some (replicate 10 ''linux-'')) False False =
       ([], Inl (Error ''ValidationError''
                   ''Key Validation Error: Keys are limited to a maximum of 10.''))"
proof -
  note thm9 = invalid_keys_rejected [where sha256_hex = createHash_sha256_hex and proc = proc0
      and rem = short_store and ext = utils0 and paths = paths0 and cross = False
      and chunk = None and completion = "[]" and lookupOnly = False
      and primaryKey = "''linux-build-abc''"]
  have comma: "CHR '','' \<in> set ''linux,build'' \<or> 512 < length ''linux,build''"
    by simp
  have long: "CHR '','' \<in> set (replicate 513 CHR ''k'') \<or> 512 < length (replicate 513 CHR ''k'')"
    by simp
  have many: "10 < length (''linux-build-abc''
      # (case Some (replicate 10 ''linux-'') of None \<Rightarrow> [] | Some ks \<Rightarrow> ks))"
    by simp
  have a: "\<exists>m. CasCacheService_saveCache createHash_sha256_hex proc0 short_store utils0 paths0
      ''linux,build'' False None = ([], Inl (ValidationError m))"
    using thm9 [where key = "''linux,build''", THEN conjunct1, THEN mp, OF comma] .
  have b: "\<exists>m. CasCacheService_saveCache createHash_sha256_hex proc0 short_store utils0 paths0
      (replicate 513 CHR ''k'') False None = ([], Inl (ValidationError m))"
    using thm9 [where key = "replicate 513 CHR ''k''", THEN conjunct1, THEN mp, OF long] .
  have c: "\<exists>m. CasCacheService_restoreCache createHash_sha256_hex proc0 short_store utils0 []
      paths0 ''linux-build-abc'' (Some (replicate 10 ''linux-'')) False False =
      ([], Inl (ValidationError m))"
    using thm9 [where restoreKeys = "Some (replicate 10 ''linux-'')", THEN conjunct2, THEN mp,
        OF many] .
  have a': "CasCacheService_saveCache createHash_sha256_hex proc0 short_store utils0 paths0
      ''linux,build'' False None =
      ([], Inl (Error ''ValidationError''
                  ''Key Validation Error: linux,build cannot contain commas.''))"
    by (simp add: CasCacheService_saveCache_def paths0_ok checkKey_def regex_test_def
        ValidationError_def)
  have c': "CasCacheService_restoreCache createHash_sha256_hex proc0 short_store utils0 []
      paths0 ''linux-build-abc'' (Some (replicate 10 ''linux-'')) False False =
      ([], Inl (Error ''ValidationError''
                  ''Key Validation Error: Keys are limited to a maximum of 10.''))"
    by (simp add: CasCacheService_restoreCache_def paths0_ok ValidationError_def)
  show ?thesis
    using comma a a' b c c' by simp
qed

end
